theory Spec2Isabelle
  imports Main "HOL-Library.Word" "HOL-Library.Monad_Syntax"
begin

unbundle bit_operations_syntax

section \<open>Machine types and the byte layout of integers\<close>

text \<open>
  The client is C for an LP64 little-endian host: \<open>uint8_t\<close>, \<open>uint16_t\<close>, \<open>uint32_t\<close>
  and \<open>size_t\<close> are words of 8, 16, 32 and 64 bits; \<open>int16_t\<close> is the same 16 bits
  read with \<open>sint\<close>. The request and reply structs of \<open>x11.h\<close> have no implicit padding
  (every gap is a named \<open>pad\<close> member, zeroed by the designated initialisers), so a struct
  written with \<open>write(fd, &s, sizeof s)\<close> is the concatenation of its members, each in
  host byte order. \<open>x11_connect\<close> announces that order with the byte \<open>'l'\<close>.
\<close>

type_synonym u8 = "8 word"
type_synonym u16 = "16 word"
type_synonym u32 = "32 word"
type_synonym size_t = "64 word"
type_synonym bytes = "u8 list"

definition le16 :: "u16 \<Rightarrow> bytes" where
  "le16 w = [ucast w, ucast (drop_bit 8 w)]"

definition le32 :: "u32 \<Rightarrow> bytes" where
  "le32 w = [ucast w, ucast (drop_bit 8 w), ucast (drop_bit 16 w), ucast (drop_bit 24 w)]"

text \<open>Reading a member back from a buffer; a byte outside the buffer reads as 0.\<close>

definition byte_at :: "bytes \<Rightarrow> nat \<Rightarrow> u8" where
  "byte_at b i = (if i < length b then b ! i else 0)"

definition rd16 :: "bytes \<Rightarrow> nat \<Rightarrow> u16" where
  "rd16 b i = ucast (byte_at b i) OR push_bit 8 (ucast (byte_at b (i + 1)))"

definition rd32 :: "bytes \<Rightarrow> nat \<Rightarrow> u32" where
  "rd32 b i = ucast (byte_at b i) OR push_bit 8 (ucast (byte_at b (i + 1)))
     OR push_bit 16 (ucast (byte_at b (i + 2))) OR push_bit 24 (ucast (byte_at b (i + 3)))"

text \<open>\<open>ntohs\<close> of two bytes as they lie in the file: the first is the most significant.\<close>

definition ntohs :: "u8 \<Rightarrow> u8 \<Rightarrow> u16" where
  "ntohs hi lo = push_bit 8 (ucast hi) OR ucast lo"

section \<open>Credential store reader\<close>

record x11_cookie_t =
  cookie_name_len :: u16
  cookie_name :: bytes
  cookie_data_len :: u16
  cookie_data :: bytes

text \<open>
  The members of \<open>x11_cookie_t\<close> carry the prefix \<open>cookie_\<close> here. Next, the 18
  bytes of the literal \<open>"MIT-MAGIC-COOKIE-1"\<close>.
\<close>

definition mit_magic_cookie_1 :: bytes where
  "mit_magic_cookie_1 =
     [0x4D, 0x49, 0x54, 0x2D, 0x4D, 0x41, 0x47, 0x49, 0x43, 0x2D,
      0x43, 0x4F, 0x4F, 0x4B, 0x49, 0x45, 0x2D, 0x31]"

text \<open>
  The open file is the list of bytes from the read position to its end.
  \<open>fread(&x, 2, 1, f) != 1\<close> fails when fewer than two bytes are left; the value read is
  then passed through \<open>ntohs\<close>. \<open>fseek(f, n, SEEK_CUR)\<close> on a regular file returns 0 also
  beyond the end, where every later \<open>fread\<close> reads nothing: that is \<open>drop n\<close>.
  \<open>fread(buf, 1, n, f) != n\<close> fails when fewer than \<open>n\<close> bytes are left. The buffers
  \<open>local_name\<close> and \<open>local_data\<close> are arrays of the length just read; for a length of 0
  the read takes no bytes and succeeds.
\<close>

definition fread_u16 :: "bytes \<Rightarrow> (u16 \<times> bytes) option" where
  "fread_u16 f = (case f of hi # lo # rest \<Rightarrow> Some (ntohs hi lo, rest) | _ \<Rightarrow> None)"

definition fseek_cur :: "u16 \<Rightarrow> bytes \<Rightarrow> bytes" where
  "fseek_cur n f = drop (unat n) f"

definition fread_bytes :: "u16 \<Rightarrow> bytes \<Rightarrow> (bytes \<times> bytes) option" where
  "fread_bytes n f =
     (if length f < unat n then None else Some (take (unat n) f, drop (unat n) f))"

text \<open>
  One pass through the body of the \<open>while (1)\<close> loop up to the comparison: \<open>None\<close> is a
  \<open>break\<close>, otherwise the two lengths, the two buffers and the file after the record.
\<close>

definition read_record :: "bytes \<Rightarrow> (u16 \<times> bytes \<times> u16 \<times> bytes \<times> bytes) option" where
  "read_record f = do {
     (family, f1) \<leftarrow> fread_u16 f;
     (address_len, f2) \<leftarrow> fread_u16 f1;
     (display_len, f3) \<leftarrow> fread_u16 (fseek_cur address_len f2);
     (local_name_len, f4) \<leftarrow> fread_u16 (fseek_cur display_len f3);
     (local_name, f5) \<leftarrow> fread_bytes local_name_len f4;
     (local_data_len, f6) \<leftarrow> fread_u16 f5;
     (local_data, f7) \<leftarrow> fread_bytes local_data_len f6;
     Some (local_name_len, local_name, local_data_len, local_data, f7)
   }"

text \<open>
  The loop of \<open>parse_xauthority\<close>: a record whose name has length 18 and compares equal
  (\<open>memcmp\<close> over 18 bytes) to the literal is copied into a fresh cookie and returned;
  any other record is dropped and the loop reads the next one.
\<close>

function scan_records :: "bytes \<Rightarrow> x11_cookie_t option" where
  "scan_records f =
     (case read_record f of
        None \<Rightarrow> None
      | Some (local_name_len, local_name, local_data_len, local_data, f') \<Rightarrow>
          if local_name_len = 18 \<and> take 18 local_name = mit_magic_cookie_1
          then Some \<lparr>cookie_name_len = local_name_len, cookie_name = local_name,
                     cookie_data_len = local_data_len, cookie_data = local_data\<rparr>
          else scan_records f')"
  by pat_completeness auto
termination
proof -
  have u16: "length f' < length f" if "fread_u16 f = Some (x, f')" for f x f'
    using that by (auto simp: fread_u16_def split: list.splits)
  have buf: "length f' \<le> length f" if "fread_bytes n f = Some (x, f')" for n f x f'
    using that by (auto simp: fread_bytes_def split: if_splits)
  have "length f' < length f" if "read_record f = Some (nl, n, dl, d, f')" for f nl n dl d f'
    using that unfolding read_record_def fseek_cur_def
    by (fastforce simp: bind_eq_Some_conv dest!: u16 buf)
  then show ?thesis
    by (relation "measure length") auto
qed

declare scan_records.simps [simp del]

text \<open>\<open>fopen\<close> fails: the file is \<open>None\<close>, and the function returns \<open>NULL\<close>.\<close>

definition parse_xauthority :: "bytes option \<Rightarrow> x11_cookie_t option" where
  "parse_xauthority xauth_file =
     (case xauth_file of None \<Rightarrow> None | Some f \<Rightarrow> scan_records f)"

section \<open>Transport\<close>

text \<open>
  The socket behind \<open>conn->fd\<close>: whether it is a connected stream, the bytes written to
  it so far, and the bytes the server sends before it closes, from the next unread one.
  \<open>write\<close> on a connected socket appends the whole buffer; \<open>read(fd, buf, n)\<close> takes
  up to \<open>n\<close> of the remaining bytes, overwrites the front of \<open>buf\<close> with them and
  returns their count, 0 at the end of the stream. On a socket that is not connected both
  return -1 and change nothing. The source never looks at the result of \<open>write\<close>.
\<close>

record channel =
  connected :: bool
  sent :: bytes
  incoming :: bytes

definition sys_write :: "bytes \<Rightarrow> channel \<Rightarrow> channel" where
  "sys_write buf ch = (if connected ch then ch\<lparr>sent := sent ch @ buf\<rparr> else ch)"

definition sys_read :: "bytes \<Rightarrow> nat \<Rightarrow> channel \<Rightarrow> int \<times> bytes \<times> channel" where
  "sys_read buf n ch =
     (if connected ch
      then let got = take n (incoming ch)
           in (int (length got), got @ drop (length got) buf,
               ch\<lparr>incoming := drop n (incoming ch)\<rparr>)
      else (- 1, buf, ch))"

text \<open>A read into a buffer that is never looked at again.\<close>

definition read_unused :: "nat \<Rightarrow> channel \<Rightarrow> channel" where
  "read_unused n ch = snd (snd (sys_read [] n ch))"

text \<open>
  Memory as the program sees it through a pointer: \<open>write(fd, p, n)\<close> sends the \<open>n\<close>
  bytes at addresses \<open>p\<close>, ..., \<open>p + n - 1\<close>.
\<close>

type_synonym memory = "nat \<Rightarrow> u8"

definition mem_bytes :: "memory \<Rightarrow> nat \<Rightarrow> nat \<Rightarrow> bytes" where
  "mem_bytes mem p n = map mem [p ..< p + n]"

section \<open>Handshake\<close>

text \<open>The memory image of \<open>x11_setup_request_t\<close> (12 bytes), members in declared order.\<close>

definition x11_setup_request_t :: "u8 \<Rightarrow> u16 \<Rightarrow> u16 \<Rightarrow> u16 \<Rightarrow> u16 \<Rightarrow> bytes" where
  "x11_setup_request_t byte_order protocol_major_version protocol_minor_version
       authorization_protocol_name_len authorization_protocol_data_len =
     [byte_order, 0] @ le16 protocol_major_version @ le16 protocol_minor_version
     @ le16 authorization_protocol_name_len @ le16 authorization_protocol_data_len @ [0, 0]"

text \<open>\<open>x11_setup_t\<close> (40 bytes); the member \<open>length\<close> is \<open>setup_length\<close> here.\<close>

record x11_setup_t =
  status :: u8
  protocol_major_version :: u16
  protocol_minor_version :: u16
  setup_length :: u16
  release_number :: u32
  resource_id_base :: u32
  resource_id_mask :: u32
  motion_buffer_size :: u32
  vendor_len :: u16
  maximum_request_length :: u16
  roots_len :: u8
  pixmap_formats_len :: u8
  image_byte_order :: u8
  bitmap_format_bit_order :: u8
  bitmap_format_scanline_unit :: u8
  bitmap_format_scanline_pad :: u8
  min_keycode :: u8
  max_keycode :: u8

definition setup_of_bytes :: "bytes \<Rightarrow> x11_setup_t" where
  "setup_of_bytes b =
     \<lparr>status = byte_at b 0,
      protocol_major_version = rd16 b 2,
      protocol_minor_version = rd16 b 4,
      setup_length = rd16 b 6,
      release_number = rd32 b 8,
      resource_id_base = rd32 b 12,
      resource_id_mask = rd32 b 16,
      motion_buffer_size = rd32 b 20,
      vendor_len = rd16 b 24,
      maximum_request_length = rd16 b 26,
      roots_len = byte_at b 28,
      pixmap_formats_len = byte_at b 29,
      image_byte_order = byte_at b 30,
      bitmap_format_bit_order = byte_at b 31,
      bitmap_format_scanline_unit = byte_at b 32,
      bitmap_format_scanline_pad = byte_at b 33,
      min_keycode = byte_at b 34,
      max_keycode = byte_at b 35\<rparr>"

text \<open>\<open>x11_screen_t\<close> (40 bytes), in both directions.\<close>

record x11_screen_t =
  root :: u32
  default_colormap :: u32
  white_pixel :: u32
  black_pixel :: u32
  current_input_masks :: u32
  width_in_pixels :: u16
  height_in_pixels :: u16
  width_in_millimeters :: u16
  height_in_millimeters :: u16
  min_installed_maps :: u16
  max_installed_maps :: u16
  root_visual :: u32
  backing_stores :: u8
  save_unders :: u8
  root_depth :: u8
  allowed_depths_len :: u8

definition screen_of_bytes :: "bytes \<Rightarrow> x11_screen_t" where
  "screen_of_bytes b =
     \<lparr>root = rd32 b 0,
      default_colormap = rd32 b 4,
      white_pixel = rd32 b 8,
      black_pixel = rd32 b 12,
      current_input_masks = rd32 b 16,
      width_in_pixels = rd16 b 20,
      height_in_pixels = rd16 b 22,
      width_in_millimeters = rd16 b 24,
      height_in_millimeters = rd16 b 26,
      min_installed_maps = rd16 b 28,
      max_installed_maps = rd16 b 30,
      root_visual = rd32 b 32,
      backing_stores = byte_at b 36,
      save_unders = byte_at b 37,
      root_depth = byte_at b 38,
      allowed_depths_len = byte_at b 39\<rparr>"

definition screen_bytes :: "x11_screen_t \<Rightarrow> bytes" where
  "screen_bytes s =
     le32 (root s) @ le32 (default_colormap s) @ le32 (white_pixel s) @ le32 (black_pixel s)
     @ le32 (current_input_masks s) @ le16 (width_in_pixels s) @ le16 (height_in_pixels s)
     @ le16 (width_in_millimeters s) @ le16 (height_in_millimeters s)
     @ le16 (min_installed_maps s) @ le16 (max_installed_maps s) @ le32 (root_visual s)
     @ [backing_stores s, save_unders s, root_depth s, allowed_depths_len s]"

text \<open>\<open>x11_connection_t\<close>; the member \<open>id\<close> is \<open>id_ctr\<close> here.\<close>

record x11_connection_t =
  fd :: int
  id_ctr :: u32
  id_inc :: u32
  screen :: x11_screen_t

text \<open>
  The three nested loops that drain the screens. Each runs a fixed number of times, so each
  is a recursion on the number of rounds left. \<open>sizeof(x11_visualtype_t)\<close> is 24,
  \<open>sizeof(x11_depth_t)\<close> is 8 with \<open>visuals_len\<close> at offset 2, \<open>sizeof(x11_screen_t)\<close>
  is 40 with \<open>allowed_depths_len\<close> at offset 39. The buffers \<open>unused_screen\<close> and
  \<open>unused_depth\<close> keep what an earlier read left in them.
\<close>

fun read_visualtypes :: "nat \<Rightarrow> channel \<Rightarrow> channel" where
  "read_visualtypes 0 ch = ch"
| "read_visualtypes (Suc k) ch = read_visualtypes k (read_unused 24 ch)"

fun read_depths :: "nat \<Rightarrow> bytes \<Rightarrow> channel \<Rightarrow> bytes \<times> channel" where
  "read_depths 0 unused_depth ch = (unused_depth, ch)"
| "read_depths (Suc j) unused_depth ch =
     (let (r, unused_depth, ch) = sys_read unused_depth 8 ch;
          ch = read_visualtypes (unat (rd16 unused_depth 2)) ch
      in read_depths j unused_depth ch)"

fun read_screens ::
  "nat \<Rightarrow> nat \<Rightarrow> x11_connection_t \<Rightarrow> bytes \<Rightarrow> bytes \<Rightarrow> channel \<Rightarrow> x11_connection_t \<times> channel"
where
  "read_screens 0 i conn unused_screen unused_depth ch = (conn, ch)"
| "read_screens (Suc n) i conn unused_screen unused_depth ch =
     (if i = 0
      then let (r, buf, ch) = sys_read (screen_bytes (screen conn)) 40 ch;
               conn = conn\<lparr>screen := screen_of_bytes buf\<rparr>;
               (unused_depth, ch) =
                 read_depths (unat (allowed_depths_len (screen conn))) unused_depth ch
           in read_screens n (Suc i) conn unused_screen unused_depth ch
      else let (r, unused_screen, ch) = sys_read unused_screen 40 ch;
               (unused_depth, ch) =
                 read_depths (unat (byte_at unused_screen 39)) unused_depth ch
           in read_screens n (Suc i) conn unused_screen unused_depth ch)"

text \<open>
  The setup request of \<open>x11_connect\<close>: the fixed struct, then, when there is a cookie,
  its name and its data, each followed by the bytes of \<open>pad\<close> that bring it to a
  multiple of 4.
\<close>

definition send_setup_request :: "x11_cookie_t option \<Rightarrow> channel \<Rightarrow> channel" where
  "send_setup_request cookie ch =
     (let setup_request = x11_setup_request_t 0x6C 11 0
            (case cookie of None \<Rightarrow> 0 | Some c \<Rightarrow> cookie_name_len c)
            (case cookie of None \<Rightarrow> 0 | Some c \<Rightarrow> cookie_data_len c);
          ch = sys_write setup_request ch
      in case cookie of
           None \<Rightarrow> ch
         | Some c \<Rightarrow>
             let pad = replicate 4 0;
                 ch = sys_write (take (unat (cookie_name_len c)) (cookie_name c)) ch;
                 ch = (if unat (cookie_name_len c) mod 4 \<noteq> 0
                       then sys_write (take (4 - unat (cookie_name_len c) mod 4) pad) ch
                       else ch);
                 ch = sys_write (take (unat (cookie_data_len c)) (cookie_data c)) ch
             in if unat (cookie_data_len c) mod 4 \<noteq> 0
                then sys_write (take (4 - unat (cookie_data_len c) mod 4) pad) ch
                else ch)"

text \<open>
  \<open>x11_connect\<close>. Which file and which socket path the environment variables select is
  outside the model: \<open>xauth_file\<close> is the content of the credential file (\<open>None\<close> when
  \<open>fopen\<close> fails), \<open>sock\<close> the result of \<open>socket\<close>, \<open>peer\<close> what the server behind
  the socket path sends (\<open>None\<close> when \<open>connect\<close> fails; the source checks neither call).
  \<open>frame\<close> gives the bytes that the automatic variables \<open>setup\<close> (offsets 0 to 39),
  \<open>unused_screen\<close> (40 to 79) and \<open>unused_depth\<close> (80 to 87) hold before they are
  written: a short read leaves them in place. The result is the returned flag, the
  connection struct and the socket.
\<close>

definition x11_connect ::
  "bytes option \<Rightarrow> int \<Rightarrow> bytes option \<Rightarrow> memory \<Rightarrow> x11_connection_t
     \<Rightarrow> bool \<times> x11_connection_t \<times> channel"
where
  "x11_connect xauth_file sock peer frame conn =
     (let cookie = parse_xauthority xauth_file;
          conn = conn\<lparr>fd := sock\<rparr>;
          ch = \<lparr>connected = (0 \<le> sock \<and> peer \<noteq> None), sent = [],
                incoming = (case peer of None \<Rightarrow> [] | Some s \<Rightarrow> s)\<rparr>;
          ch = send_setup_request cookie ch;
          (r, setup_buf, ch) = sys_read (mem_bytes frame 0 40) 40 ch;
          setup = setup_of_bytes setup_buf
      in if status setup \<noteq> 1 then (False, conn, ch)
         else let conn = conn\<lparr>id_ctr := resource_id_base setup,
                               id_inc := resource_id_mask setup AND - resource_id_mask setup\<rparr>;
                  ch = read_unused (unat (vendor_len setup)) ch;
                  ch = read_unused (unat (pixmap_formats_len setup) * 8) ch;
                  (conn, ch) = read_screens (unat (roots_len setup)) 0 conn
                                 (mem_bytes frame 40 40) (mem_bytes frame 80 8) ch
              in (True, conn, ch))"

section \<open>Resource ID allocator\<close>

text \<open>\<open>x11_generate_id\<close> returns the counter and stores the counter plus the increment.\<close>

definition x11_generate_id :: "x11_connection_t \<Rightarrow> u32 \<times> x11_connection_t" where
  "x11_generate_id conn = (id_ctr conn, conn\<lparr>id_ctr := id_ctr conn + id_inc conn\<rparr>)"

text \<open>
  Call number \<open>k\<close>, counted from 0, in a run of calls on one connection: \<open>k\<close> calls
  whose results are dropped, then the call.
\<close>

definition generate_id_call :: "nat \<Rightarrow> x11_connection_t \<Rightarrow> u32 \<times> x11_connection_t" where
  "generate_id_call k conn = x11_generate_id (((snd \<circ> x11_generate_id) ^^ k) conn)"

section \<open>Request encoder\<close>

definition X11_CREATE_WINDOW :: u8 where "X11_CREATE_WINDOW = 1"
definition X11_MAP_WINDOW :: u8 where "X11_MAP_WINDOW = 8"
definition X11_CONFIGURE_WINDOW :: u8 where "X11_CONFIGURE_WINDOW = 12"
definition X11_CHANGE_PROPERTY :: u8 where "X11_CHANGE_PROPERTY = 18"
definition X11_OPEN_FONT :: u8 where "X11_OPEN_FONT = 45"
definition X11_CLOSE_FONT :: u8 where "X11_CLOSE_FONT = 46"
definition X11_CREATE_GC :: u8 where "X11_CREATE_GC = 55"
definition X11_POLY_RECTANGLE :: u8 where "X11_POLY_RECTANGLE = 67"
definition X11_IMAGE_TEXT_8 :: u8 where "X11_IMAGE_TEXT_8 = 76"
definition X11_EXPOSE :: u8 where "X11_EXPOSE = 12"

text \<open>
  The memory image of each request struct, members in declared order. The sizes are
  12 (open font), 8 (close font), 16 (create GC), 32 (create window), 24 (change property),
  12 (configure window), 8 (map window), 12 (poly rectangle) and 16 (image text 8).
\<close>

definition x11_open_font_request_t :: "u8 \<Rightarrow> u16 \<Rightarrow> u32 \<Rightarrow> u16 \<Rightarrow> bytes" where
  "x11_open_font_request_t major_opcode len fid name_len =
     [major_opcode, 0] @ le16 len @ le32 fid @ le16 name_len @ [0, 0]"

definition x11_close_font_request_t :: "u8 \<Rightarrow> u16 \<Rightarrow> u32 \<Rightarrow> bytes" where
  "x11_close_font_request_t major_opcode len font = [major_opcode, 0] @ le16 len @ le32 font"

definition x11_create_gc_request_t :: "u8 \<Rightarrow> u16 \<Rightarrow> u32 \<Rightarrow> u32 \<Rightarrow> u32 \<Rightarrow> bytes" where
  "x11_create_gc_request_t major_opcode len cid drawable value_mask =
     [major_opcode, 0] @ le16 len @ le32 cid @ le32 drawable @ le32 value_mask"

definition x11_create_window_request_t ::
  "u8 \<Rightarrow> u8 \<Rightarrow> u16 \<Rightarrow> u32 \<Rightarrow> u32 \<Rightarrow> u16 \<Rightarrow> u16 \<Rightarrow> u16 \<Rightarrow> u16 \<Rightarrow> u16 \<Rightarrow> u16 \<Rightarrow> u32 \<Rightarrow> u32
     \<Rightarrow> bytes"
where
  "x11_create_window_request_t major_opcode depth len wid parent x y width height
       border_width class visual value_mask =
     [major_opcode, depth] @ le16 len @ le32 wid @ le32 parent @ le16 x @ le16 y
     @ le16 width @ le16 height @ le16 border_width @ le16 class @ le32 visual
     @ le32 value_mask"

definition x11_change_property_request_t ::
  "u8 \<Rightarrow> u8 \<Rightarrow> u16 \<Rightarrow> u32 \<Rightarrow> u32 \<Rightarrow> u32 \<Rightarrow> u8 \<Rightarrow> u32 \<Rightarrow> bytes"
where
  "x11_change_property_request_t major_opcode mode len window property type format data_len =
     [major_opcode, mode] @ le16 len @ le32 window @ le32 property @ le32 type
     @ [format, 0, 0, 0] @ le32 data_len"

definition x11_configure_window_request_t :: "u8 \<Rightarrow> u16 \<Rightarrow> u32 \<Rightarrow> u16 \<Rightarrow> bytes" where
  "x11_configure_window_request_t major_opcode len window value_mask =
     [major_opcode, 0] @ le16 len @ le32 window @ le16 value_mask @ [0, 0]"

definition x11_map_window_request_t :: "u8 \<Rightarrow> u16 \<Rightarrow> u32 \<Rightarrow> bytes" where
  "x11_map_window_request_t major_opcode len window = [major_opcode, 0] @ le16 len @ le32 window"

definition x11_poly_rectangle_request_t :: "u8 \<Rightarrow> u16 \<Rightarrow> u32 \<Rightarrow> u32 \<Rightarrow> bytes" where
  "x11_poly_rectangle_request_t major_opcode len drawable gc =
     [major_opcode, 0] @ le16 len @ le32 drawable @ le32 gc"

definition x11_image_text_8_request_t ::
  "u8 \<Rightarrow> u8 \<Rightarrow> u16 \<Rightarrow> u32 \<Rightarrow> u32 \<Rightarrow> u16 \<Rightarrow> u16 \<Rightarrow> bytes"
where
  "x11_image_text_8_request_t major_opcode string_len len drawable gc x y =
     [major_opcode, string_len] @ le16 len @ le32 drawable @ le32 gc @ le16 x @ le16 y"

text \<open>
  The encoders. Sizes are \<open>size_t\<close>; a size stored into a narrower member is truncated
  (\<open>ucast\<close>), as the C assignment does. Payloads are pointers into \<open>mem\<close>.
\<close>

definition x11_open_font :: "channel \<Rightarrow> memory \<Rightarrow> u32 \<Rightarrow> nat \<Rightarrow> size_t \<Rightarrow> channel" where
  "x11_open_font ch mem fid name name_size =
     (let aligned_name_size = (name_size + 3) AND NOT 3;
          open_font_request = x11_open_font_request_t X11_OPEN_FONT
            (ucast ((12 + aligned_name_size) div 4)) fid (ucast name_size);
          ch = sys_write open_font_request ch
      in sys_write (mem_bytes mem name (unat aligned_name_size)) ch)"

definition x11_close_font :: "channel \<Rightarrow> u32 \<Rightarrow> channel" where
  "x11_close_font ch font =
     sys_write (x11_close_font_request_t X11_CLOSE_FONT (ucast ((8 :: size_t) div 4)) font) ch"

definition x11_create_gc ::
  "channel \<Rightarrow> memory \<Rightarrow> u32 \<Rightarrow> u32 \<Rightarrow> u32 \<Rightarrow> nat \<Rightarrow> size_t \<Rightarrow> channel"
where
  "x11_create_gc ch mem cid drawable value_mask value_list value_list_size =
     (let create_gc_request = x11_create_gc_request_t X11_CREATE_GC
            (ucast ((16 + value_list_size) div 4)) cid drawable value_mask;
          ch = sys_write create_gc_request ch
      in sys_write (mem_bytes mem value_list (unat value_list_size)) ch)"

definition x11_create_window ::
  "channel \<Rightarrow> memory \<Rightarrow> u8 \<Rightarrow> u32 \<Rightarrow> u32 \<Rightarrow> u16 \<Rightarrow> u16 \<Rightarrow> u16 \<Rightarrow> u16 \<Rightarrow> u16 \<Rightarrow> u16 \<Rightarrow> u32
     \<Rightarrow> u32 \<Rightarrow> nat \<Rightarrow> size_t \<Rightarrow> channel"
where
  "x11_create_window ch mem depth wid parent x y width height border_width class visual
       value_mask value_list value_list_size =
     (let create_window_request = x11_create_window_request_t X11_CREATE_WINDOW depth
            (ucast ((32 + value_list_size) div 4)) wid parent x y width height border_width
            class visual value_mask;
          ch = sys_write create_window_request ch
      in sys_write (mem_bytes mem value_list (unat value_list_size)) ch)"

definition x11_change_property ::
  "channel \<Rightarrow> memory \<Rightarrow> u8 \<Rightarrow> u32 \<Rightarrow> u32 \<Rightarrow> u32 \<Rightarrow> u8 \<Rightarrow> nat \<Rightarrow> size_t \<Rightarrow> channel"
where
  "x11_change_property ch mem mode window property type format data data_size =
     (let aligned_data_size = (data_size + 3) AND NOT 3;
          change_property_request = x11_change_property_request_t X11_CHANGE_PROPERTY mode
            (ucast ((24 + aligned_data_size) div 4)) window property type format
            (ucast data_size);
          ch = sys_write change_property_request ch
      in sys_write (mem_bytes mem data (unat aligned_data_size)) ch)"

definition x11_configure_window ::
  "channel \<Rightarrow> memory \<Rightarrow> u32 \<Rightarrow> u32 \<Rightarrow> nat \<Rightarrow> size_t \<Rightarrow> channel"
where
  "x11_configure_window ch mem window value_mask value_list value_list_size =
     (let configure_window_request = x11_configure_window_request_t X11_CONFIGURE_WINDOW
            (ucast ((12 + value_list_size) div 4)) window (ucast value_mask);
          ch = sys_write configure_window_request ch
      in sys_write (mem_bytes mem value_list (unat value_list_size)) ch)"

definition x11_map_window :: "channel \<Rightarrow> u32 \<Rightarrow> channel" where
  "x11_map_window ch window =
     sys_write (x11_map_window_request_t X11_MAP_WINDOW (ucast ((8 :: size_t) div 4)) window) ch"

definition x11_poly_rectangle ::
  "channel \<Rightarrow> memory \<Rightarrow> u32 \<Rightarrow> u32 \<Rightarrow> nat \<Rightarrow> size_t \<Rightarrow> channel"
where
  "x11_poly_rectangle ch mem drawable gc rectangles rectangles_size =
     (let poly_rectangle_request = x11_poly_rectangle_request_t X11_POLY_RECTANGLE
            (ucast ((12 + rectangles_size) div 4)) drawable gc;
          ch = sys_write poly_rectangle_request ch
      in sys_write (mem_bytes mem rectangles (unat rectangles_size)) ch)"

definition x11_image_text_8 ::
  "channel \<Rightarrow> memory \<Rightarrow> u32 \<Rightarrow> u32 \<Rightarrow> u16 \<Rightarrow> u16 \<Rightarrow> nat \<Rightarrow> size_t \<Rightarrow> channel"
where
  "x11_image_text_8 ch mem drawable gc x y string string_size =
     (let aligned_string_size = (string_size + 3) AND NOT 3;
          image_text_8_request = x11_image_text_8_request_t X11_IMAGE_TEXT_8
            (ucast string_size) (ucast ((16 + aligned_string_size) div 4)) drawable gc x y;
          ch = sys_write image_text_8_request ch
      in sys_write (mem_bytes mem string (unat aligned_string_size)) ch)"

section \<open>Event reader\<close>

text \<open>
  \<open>x11_event_t\<close> has the single member \<open>type\<close>, so an event is that byte. The first read
  goes into \<open>event->type\<close>, which keeps its old value when the read fails;
  \<open>event->type &= ~0x80\<close> clears bit 7. The result is the returned flag, the event and
  the socket.
\<close>

definition x11_wait_for_event :: "channel \<Rightarrow> u8 \<Rightarrow> bool \<times> u8 \<times> channel" where
  "x11_wait_for_event ch event =
     (let (r, buf, ch) = sys_read [event] 1 ch
      in if r = 0 then (False, event, ch)
         else let event = byte_at buf 0 AND NOT 0x80
              in if event = X11_EXPOSE
                 then (True, event, read_unused 13 ch)
                 else (True, event, ch))"

text \<open>\<open>x11_disconnect\<close> closes the descriptor: nothing can be read or written after it.\<close>

definition x11_disconnect :: "channel \<Rightarrow> channel" where
  "x11_disconnect ch = ch\<lparr>connected := False\<rparr>"

section \<open>The specification's own notions\<close>

text \<open>
  A record of the credential store as the specification describes it: a 2-byte family code,
  then an address, a display qualifier, an authentication-family name and a token, each
  preceded by its length as a 2-byte big-endian count. A record is well formed when each
  of its four lengths fits such a count.
\<close>

record xauth_entry =
  entry_family :: u16
  entry_address :: bytes
  entry_display :: bytes
  entry_name :: bytes
  entry_token :: bytes

definition be16 :: "u16 \<Rightarrow> bytes" where
  "be16 w = [ucast (drop_bit 8 w), ucast w]"

definition counted :: "bytes \<Rightarrow> bytes" where
  "counted field = be16 (of_nat (length field)) @ field"

definition entry_bytes :: "xauth_entry \<Rightarrow> bytes" where
  "entry_bytes e =
     be16 (entry_family e) @ counted (entry_address e) @ counted (entry_display e)
     @ counted (entry_name e) @ counted (entry_token e)"

definition well_formed_entry :: "xauth_entry \<Rightarrow> bool" where
  "well_formed_entry e \<longleftrightarrow>
     length (entry_address e) < 65536 \<and> length (entry_display e) < 65536
     \<and> length (entry_name e) < 65536 \<and> length (entry_token e) < 65536"

definition store_bytes :: "xauth_entry list \<Rightarrow> bytes" where
  "store_bytes es = concat (map entry_bytes es)"

definition cookie_of_entry :: "xauth_entry \<Rightarrow> x11_cookie_t" where
  "cookie_of_entry e =
     \<lparr>cookie_name_len = of_nat (length (entry_name e)), cookie_name = entry_name e,
      cookie_data_len = of_nat (length (entry_token e)), cookie_data = entry_token e\<rparr>"

text \<open>The lowest set bit of a 32-bit mask, found by looking at the bits from bit 0 up.\<close>

definition lowest_set_bit :: "u32 \<Rightarrow> u32" where
  "lowest_set_bit m = (case find (bit m) [0 ..< 32] of None \<Rightarrow> 0 | Some n \<Rightarrow> push_bit n 1)"

text \<open>
  Re-parsing a create-window request against the header layout of \<open>x11.h\<close>: the thirteen
  header members at their offsets, then the value list as the 32-bit words that follow the
  32-byte header.
\<close>

record create_window_header =
  cw_major_opcode :: u8
  cw_depth :: u8
  cw_length :: u16
  cw_wid :: u32
  cw_parent :: u32
  cw_x :: u16
  cw_y :: u16
  cw_width :: u16
  cw_height :: u16
  cw_border_width :: u16
  cw_class :: u16
  cw_visual :: u32
  cw_value_mask :: u32

definition parse_create_window_header :: "bytes \<Rightarrow> create_window_header" where
  "parse_create_window_header b =
     \<lparr>cw_major_opcode = byte_at b 0, cw_depth = byte_at b 1, cw_length = rd16 b 2,
      cw_wid = rd32 b 4, cw_parent = rd32 b 8, cw_x = rd16 b 12, cw_y = rd16 b 14,
      cw_width = rd16 b 16, cw_height = rd16 b 18, cw_border_width = rd16 b 20,
      cw_class = rd16 b 22, cw_visual = rd32 b 24, cw_value_mask = rd32 b 28\<rparr>"

fun words_of_bytes :: "bytes \<Rightarrow> u32 list" where
  "words_of_bytes (a # b # c # d # rest) = rd32 [a, b, c, d] 0 # words_of_bytes rest"
| "words_of_bytes rest = []"

definition parse_create_window :: "bytes \<Rightarrow> create_window_header \<times> u32 list" where
  "parse_create_window b = (parse_create_window_header b, words_of_bytes (drop 32 b))"

text \<open>
  The padded size \<open>(L + 3) & ~3\<close> of the specification, on the integers without a width.
\<close>

definition aligned_size :: "nat \<Rightarrow> nat" where
  "aligned_size L = nat ((int L + 3) AND NOT 3)"

text \<open>The bytes that a call wrote: what the socket has been sent since \<open>ch\<close>.\<close>

definition emitted :: "channel \<Rightarrow> channel \<Rightarrow> bytes" where
  "emitted ch ch' = drop (length (sent ch)) (sent ch')"

text \<open>A memory that holds the bytes \<open>xs\<close> from address \<open>base\<close> on and 0 elsewhere.\<close>

definition mem_of_list :: "nat \<Rightarrow> bytes \<Rightarrow> memory" where
  "mem_of_list base xs a = (if base \<le> a \<and> a < base + length xs then xs ! (a - base) else 0)"

text \<open>A value list of 32-bit words as it lies in the caller's memory at address \<open>p\<close>.\<close>

definition holds_words :: "memory \<Rightarrow> nat \<Rightarrow> u32 list \<Rightarrow> bool" where
  "holds_words mem p ws \<longleftrightarrow> mem_bytes mem p (4 * length ws) = concat (map le32 ws)"


section \<open>Bytes, bits and the socket\<close>

lemma rd16_le16:
  "ucast (ucast w :: u8) OR push_bit 8 (ucast (ucast (drop_bit 8 w) :: u8)) = (w :: u16)"
  by (rule bit_word_eqI) (auto simp: bit_simps)

lemma rd32_le32: "ucast (ucast w :: u8) OR push_bit 8 (ucast (ucast (drop_bit 8 w) :: u8))
   OR push_bit 16 (ucast (ucast (drop_bit 16 w) :: u8)) OR push_bit 24 (ucast (ucast (drop_bit 24 w) :: u8)) = (w :: u32)"
  (is "?l = w")
proof (rule bit_word_eqI)
  fix n assume "n < LENGTH(32)"
  then have "n < 8 \<or> (n = 8 + (n - 8) \<and> n - 8 < 8) \<or> (n = 16 + (n - 16) \<and> n - 16 < 8)
      \<or> (n = 24 + (n - 24) \<and> n - 24 < 8)"
    by simp arith
  then consider "n < 8" | m where "n = 8 + m" "m < 8" | m where "n = 16 + m" "m < 8"
    | m where "n = 24 + m" "m < 8"
    by blast
  then show "bit ?l n = bit w n"
    by cases (auto simp: bit_simps)
qed

lemma and_double_int: "(2 * a AND 2 * b) div 2 = a AND (b::int)"
  by (subst and_int_rec) simp

lemma and_double_odd_int: "((2 * a + 1) AND (2 * b + 1)) div 2 = a AND (b::int)"
  by (subst and_int_rec) simp

lemma int_low: "bit (k AND - k) n \<longleftrightarrow> bit (k::int) n \<and> (\<forall>j<n. \<not> bit k j)"
proof (induction n arbitrary: k)
  case 0
  then show ?case by (simp add: bit_0 even_and_iff)
next
  case (Suc n)
  have all_Suc: "(\<forall>j<Suc n. \<not> bit k j) \<longleftrightarrow> \<not> bit k 0 \<and> (\<forall>j<n. \<not> bit k (Suc j))"
    using less_Suc_eq_0_disj by auto
  show ?case
  proof (cases "even k")
    case True
    then obtain k' where k: "k = 2 * k'" by (elim evenE)
    have mk: "- k = 2 * (- k')" by (simp add: k)
    have "(k AND - k) div 2 = k' AND - k'"
      unfolding mk unfolding k by (rule and_double_int)
    then show ?thesis
      using Suc.IH[of k'] True unfolding all_Suc by (simp add: bit_Suc k bit_0)
  next
    case False
    then obtain k' where k: "k = 2 * k' + 1" by (elim oddE)
    have mk: "- k = 2 * (NOT k') + 1" by (simp add: k not_int_def)
    have "(k AND - k) div 2 = k' AND NOT k'"
      unfolding mk unfolding k by (rule and_double_odd_int)
    then show ?thesis
      using False unfolding all_Suc by (simp add: bit_Suc bit_0)
  qed
qed

lemma word_low: "bit (m AND - m) n \<longleftrightarrow> bit (m::'a::len word) n \<and> (\<forall>j<n. \<not> bit m j)"
proof -
  have "m AND - m = word_of_int (uint m AND - uint m)"
    by transfer (simp add: take_bit_minus)
  then have "bit (m AND - m) n \<longleftrightarrow> n < LENGTH('a) \<and> bit (uint m AND - uint m) n"
    by (simp add: bit_word_of_int_iff)
  also have "\<dots> \<longleftrightarrow> n < LENGTH('a) \<and> bit (uint m) n \<and> (\<forall>j<n. \<not> bit (uint m) j)"
    by (simp add: int_low)
  also have "\<dots> \<longleftrightarrow> bit m n \<and> (\<forall>j<n. \<not> bit m j)"
    by (auto simp: bit_uint_iff dest: bit_imp_le_length)
  finally show ?thesis .
qed

lemma lowest_set_bit_eq: "m AND - m = lowest_set_bit m"
proof (cases "find (bit m) [0 ..< 32]")
  case None
  then have "\<forall>n<32. \<not> bit m n" by (auto simp: find_None_iff)
  then have "m = 0" by (intro bit_word_eqI) simp
  with None show ?thesis by (simp add: lowest_set_bit_def)
next
  case (Some n)
  then have n: "n < 32" "bit m n" "\<forall>j<n. \<not> bit m j"
    by (auto simp: find_Some_iff)
  have "m AND - m = push_bit n 1"
  proof (rule bit_word_eqI)
    fix k assume "k < LENGTH(32)"
    have "(bit m k \<and> (\<forall>j<k. \<not> bit m j)) \<longleftrightarrow> k = n"
      using n by (metis nat_neq_iff)
    then show "bit (m AND - m) k = bit (push_bit n 1 :: u32) k"
      unfolding word_low using n by (auto simp: bit_simps)
  qed
  with Some show ?thesis by (simp add: lowest_set_bit_def)
qed

lemma unat_neg_u32: "unat (- m :: u32) = (2 ^ 32 - unat m) mod 2 ^ 32"
proof -
  have "unat m \<le> 2 ^ 32" using unsigned_less[of m, where 'a = nat] by simp
  then have "(word_of_nat (2 ^ 32 - unat m) :: u32) = - m"
    by simp
  then have "unat (- m) = unat (word_of_nat (2 ^ 32 - unat m) :: u32)" by simp
  then show ?thesis by (simp only: unat_of_nat) simp
qed

lemma unat_low: "unat (m AND - m :: u32) = unat m AND ((2 ^ 32 - unat m) mod 2 ^ 32)"
  by (simp only: unsigned_and_eq unat_neg_u32)

lemma read_unused_connected [simp]: "connected (read_unused n ch) = connected ch"
  and read_unused_sent [simp]: "sent (read_unused n ch) = sent ch"
  by (simp_all add: read_unused_def sys_read_def Let_def)

lemma sys_read_connected [simp]: "connected (snd (snd (sys_read b n ch))) = connected ch"
  and sys_read_sent [simp]: "sent (snd (snd (sys_read b n ch))) = sent ch"
  by (simp_all add: sys_read_def Let_def)

lemma read_visualtypes_sent [simp]: "sent (read_visualtypes k ch) = sent ch"
  by (induction k arbitrary: ch) simp_all

lemma read_depths_sent [simp]: "sent (snd (read_depths j b ch)) = sent ch"
proof (induction j arbitrary: b ch)
  case 0 show ?case by simp
next
  case (Suc j)
  obtain r b' ch' where rd: "sys_read b 8 ch = (r, b', ch')" by (cases "sys_read b 8 ch")
  then have "sent ch' = sent ch" using sys_read_sent[of b 8 ch] by simp
  with Suc rd show ?case by simp
qed

lemma read_screens_ids:
  "id_ctr (fst (read_screens n i conn us ud ch)) = id_ctr conn
   \<and> id_inc (fst (read_screens n i conn us ud ch)) = id_inc conn
   \<and> fd (fst (read_screens n i conn us ud ch)) = fd conn"
  by (induction n arbitrary: i conn us ud ch) (simp_all add: split_def Let_def)

lemma read_screens_sent [simp]: "sent (snd (read_screens n i conn us ud ch)) = sent ch"
  by (induction n arbitrary: i conn us ud ch) (simp_all add: split_def Let_def)

lemma sys_write_connected [simp]: "connected (sys_write b ch) = connected ch"
  and sys_write_incoming [simp]: "incoming (sys_write b ch) = incoming ch"
  by (simp_all add: sys_write_def)

lemma send_setup_request_connected [simp]:
  "connected (send_setup_request cookie ch) = connected ch"
  and send_setup_request_incoming [simp]:
  "incoming (send_setup_request cookie ch) = incoming ch"
  by (simp_all add: send_setup_request_def Let_def split: option.splits)

lemma sys_read_buf:
  "connected ch \<Longrightarrow> fst (snd (sys_read b n ch)) = take n (incoming ch) @ drop (length (take n (incoming ch))) b"
  by (simp add: sys_read_def Let_def)

lemma byte_at_take_append:
  "i < n \<Longrightarrow> i < length xs \<Longrightarrow> byte_at (take n xs @ ys) i = byte_at xs i"
  by (auto simp: byte_at_def nth_append)

lemma rd32_take_append:
  "i + 4 \<le> n \<Longrightarrow> i + 4 \<le> length xs \<Longrightarrow> rd32 (take n xs @ ys) i = rd32 xs i"
  by (simp add: rd32_def byte_at_take_append)

lemma generate_id_iter:
  "id_ctr (((snd \<circ> x11_generate_id) ^^ k) conn) = id_ctr conn + of_nat k * id_inc conn
   \<and> id_inc (((snd \<circ> x11_generate_id) ^^ k) conn) = id_inc conn"
  by (induction k) (simp_all add: x11_generate_id_def algebra_simps)

section \<open>Resource identifiers\<close>

text \<open>
  C2. Call number \<open>k\<close> (from 0) of \<open>x11_generate_id\<close> on a connection with counter
  \<open>b\<close> and increment \<open>inc\<close> returns \<open>b + k * inc\<close>, computed as the source does in
  32-bit unsigned arithmetic; each call adds exactly \<open>inc\<close> to the counter and leaves the
  increment alone. As long as \<open>b + k * inc\<close> stays below \<open>2 ^ 32\<close> the returned number
  is that sum itself.
\<close>

theorem generate_id_kth_call:
  "fst (generate_id_call k conn) = id_ctr conn + of_nat k * id_inc conn
   \<and> id_ctr (snd (x11_generate_id conn)) = id_ctr conn + id_inc conn
   \<and> id_inc (snd (x11_generate_id conn)) = id_inc conn
   \<and> (unat (id_ctr conn) + k * unat (id_inc conn) < 2 ^ 32 \<longrightarrow>
        unat (fst (generate_id_call k conn)) = unat (id_ctr conn) + k * unat (id_inc conn))"
proof -
  have 1: "fst (generate_id_call k conn) = id_ctr conn + of_nat k * id_inc conn"
    by (simp add: generate_id_call_def generate_id_iter x11_generate_id_def)
  have 2: "unat (fst (generate_id_call k conn)) = unat (id_ctr conn) + k * unat (id_inc conn)"
    if "unat (id_ctr conn) + k * unat (id_inc conn) < 2 ^ 32"
  proof -
    have "id_ctr conn + of_nat k * id_inc conn = word_of_nat (unat (id_ctr conn) + k * unat (id_inc conn))"
      by simp
    then have "unat (id_ctr conn + of_nat k * id_inc conn) = (unat (id_ctr conn) + k * unat (id_inc conn)) mod 2 ^ 32"
      by (simp only: unat_of_nat) simp
    with that show ?thesis by (simp add: 1)
  qed
  show ?thesis using 1 2 by (simp add: x11_generate_id_def)
qed

theorem generate_id_kth_call_witness:
  "unat (0x400000 :: u32) + 1 * unat (1 :: u32) < 2 ^ 32
   \<and> fst (generate_id_call 0 \<lparr>fd = 3, id_ctr = 0x400000, id_inc = 1, screen = screen_of_bytes []\<rparr>) = 0x400000
   \<and> unat (fst (generate_id_call 1
         \<lparr>fd = 3, id_ctr = 0x400000, id_inc = 1, screen = screen_of_bytes []\<rparr>)) = 0x400001"
  using generate_id_kth_call [of 1 "\<lparr>fd = 3, id_ctr = 0x400000, id_inc = 1, screen = screen_of_bytes []\<rparr>"]
    generate_id_kth_call [of 0 "\<lparr>fd = 3, id_ctr = 0x400000, id_inc = 1, screen = screen_of_bytes []\<rparr>"]
  by simp

text \<open>
  C3. When the server's setup reply reports success and carries the resource-id mask
  \<open>m\<close>, \<open>x11_connect\<close> succeeds and the increment it records is the lowest set bit of
  \<open>m\<close>, which is \<open>m & -m\<close>, that is \<open>m & ((2^32 - m) mod 2^32)\<close> on the numbers.
  The instance that follows the theorem runs the masks \<open>0x1FFFFF\<close> (increment 1) and
  \<open>0xFFFFFFFE\<close> (increment 2).
\<close>

theorem connect_increment_lowest_bit:
  assumes "0 \<le> sock" and "20 \<le> length reply" and "byte_at reply 0 = 1" and "rd32 reply 16 = m"
  shows "fst (x11_connect xauth_file sock (Some reply) frame conn)
       \<and> id_inc (fst (snd (x11_connect xauth_file sock (Some reply) frame conn))) = lowest_set_bit m
       \<and> lowest_set_bit m = m AND - m
       \<and> unat (m AND - m) = unat m AND ((2 ^ 32 - unat m) mod 2 ^ 32)"
proof -
  define ch where "ch = send_setup_request (parse_xauthority xauth_file)
      \<lparr>connected = (0 \<le> sock), sent = [], incoming = reply\<rparr>"
  have c: "connected ch" and i: "incoming ch = reply" using assms(1) by (simp_all add: ch_def)
  define buf where "buf = fst (snd (sys_read (mem_bytes frame 0 40) 40 ch))"
  have buf: "buf = take 40 reply @ drop (length (take 40 reply)) (mem_bytes frame 0 40)"
    unfolding buf_def using c i by (simp add: sys_read_buf)
  have ne: "reply \<noteq> []" using assms(2) by auto
  have st: "status (setup_of_bytes buf) = 1"
    using assms(2,3) ne by (simp add: setup_of_bytes_def buf byte_at_take_append)
  have mk: "resource_id_mask (setup_of_bytes buf) = m"
    using assms(2,4) by (simp add: setup_of_bytes_def buf rd32_take_append)
  have "fst (x11_connect xauth_file sock (Some reply) frame conn)
      \<and> id_inc (fst (snd (x11_connect xauth_file sock (Some reply) frame conn))) = m AND - m"
    unfolding x11_connect_def Let_def split_def
    using st mk by (simp add: ch_def[symmetric] buf_def[symmetric] read_screens_ids)
  with lowest_set_bit_eq[of m] unat_low[of m] show ?thesis by simp
qed

theorem connect_increment_lowest_bit_witness:
  "(0::int) \<le> 3
   \<and> 20 \<le> length [1, 0, 11, 0, 0, 0, 0, 0, 0, 0, 0, 0, 0, 0, 0x40, 0, 0xFF, 0xFF, 0x1F, 0 :: u8]
   \<and> byte_at [1, 0, 11, 0, 0, 0, 0, 0, 0, 0, 0, 0, 0, 0, 0x40, 0, 0xFF, 0xFF, 0x1F, 0] 0 = 1
   \<and> rd32 [1, 0, 11, 0, 0, 0, 0, 0, 0, 0, 0, 0, 0, 0, 0x40, 0, 0xFF, 0xFF, 0x1F, 0] 16 = 0x1FFFFF
   \<and> id_inc (fst (snd (x11_connect None 3
         (Some [1, 0, 11, 0, 0, 0, 0, 0, 0, 0, 0, 0, 0, 0, 0x40, 0, 0xFF, 0xFF, 0x1F, 0])
         (mem_of_list 0 []) \<lparr>fd = 0, id_ctr = 0, id_inc = 0, screen = screen_of_bytes []\<rparr>))) = 1
   \<and> rd32 [1, 0, 11, 0, 0, 0, 0, 0, 0, 0, 0, 0, 0, 0, 0x40, 0, 0xFE, 0xFF, 0xFF, 0xFF] 16 = 0xFFFFFFFE
   \<and> id_inc (fst (snd (x11_connect None 3
         (Some [1, 0, 11, 0, 0, 0, 0, 0, 0, 0, 0, 0, 0, 0, 0x40, 0, 0xFE, 0xFF, 0xFF, 0xFF])
         (mem_of_list 0 []) \<lparr>fd = 0, id_ctr = 0, id_inc = 0, screen = screen_of_bytes []\<rparr>))) = 2"
proof -
  have r1: "rd32 [1, 0, 11, 0, 0, 0, 0, 0, 0, 0, 0, 0, 0, 0, 0x40, 0, 0xFF, 0xFF, 0x1F, 0] 16 = 0x1FFFFF"
    by (simp add: rd32_def byte_at_def)
  have r2: "rd32 [1, 0, 11, 0, 0, 0, 0, 0, 0, 0, 0, 0, 0, 0, 0x40, 0, 0xFE, 0xFF, 0xFF, 0xFF] 16 = 0xFFFFFFFE"
    by (simp add: rd32_def byte_at_def)
  have l1: "lowest_set_bit 0x1FFFFF = 1" by code_simp
  have l2: "lowest_set_bit 0xFFFFFFFE = 2" by code_simp
  show ?thesis
    using connect_increment_lowest_bit [of 3 "[1, 0, 11, 0, 0, 0, 0, 0, 0, 0, 0, 0, 0, 0, 0x40, 0, 0xFF, 0xFF, 0x1F, 0]" "0x1FFFFF"
        None "mem_of_list 0 []" "\<lparr>fd = 0, id_ctr = 0, id_inc = 0, screen = screen_of_bytes []\<rparr>"]
      connect_increment_lowest_bit [of 3 "[1, 0, 11, 0, 0, 0, 0, 0, 0, 0, 0, 0, 0, 0, 0x40, 0, 0xFE, 0xFF, 0xFF, 0xFF]" "0xFFFFFFFE"
        None "mem_of_list 0 []" "\<lparr>fd = 0, id_ctr = 0, id_inc = 0, screen = screen_of_bytes []\<rparr>"]
    by (simp add: r1 r2 l1 l2 byte_at_def)
qed

text \<open>
  The scenario of the specification: the server answers with status 1, resource-id base
  \<open>0x00400000\<close>, mask \<open>0x001FFFFF\<close>, no screens and no formats. \<open>x11_connect\<close> succeeds
  after sending the bare setup request, and the first two identifiers are \<open>0x00400000\<close>
  and \<open>0x00400001\<close>.
\<close>

lemma connect_then_generate_ids:
  "(let (ok, conn, ch) = x11_connect None 3
          (Some [1, 0, 11, 0, 0, 0, 0, 0, 0, 0, 0, 0, 0, 0, 0x40, 0, 0xFF, 0xFF, 0x1F, 0,
                 0, 0, 0, 0, 0, 0, 0, 0, 0, 0, 0, 0, 0, 0, 0, 0, 0, 0, 0, 0])
          (mem_of_list 0 []) \<lparr>fd = 0, id_ctr = 0, id_inc = 0, screen = screen_of_bytes []\<rparr>;
        (a, conn) = x11_generate_id conn;
        (b, conn) = x11_generate_id conn
    in (ok, a, b, sent ch, incoming ch))
   = (True, 0x400000, 0x400001, [0x6C, 0, 11, 0, 0, 0, 0, 0, 0, 0, 0, 0], [])"
  by code_simp

text \<open>
  C4. When the first byte of the setup reply, its status, is not 1, \<open>x11_connect\<close>
  returns false and the counter, the increment and the screen of the connection are what
  they were before the call.
\<close>

theorem connect_setup_rejected:
  assumes "0 \<le> sock" and "reply \<noteq> []" and "byte_at reply 0 \<noteq> 1"
  shows "\<not> fst (x11_connect xauth_file sock (Some reply) frame conn)
       \<and> id_ctr (fst (snd (x11_connect xauth_file sock (Some reply) frame conn))) = id_ctr conn
       \<and> id_inc (fst (snd (x11_connect xauth_file sock (Some reply) frame conn))) = id_inc conn
       \<and> screen (fst (snd (x11_connect xauth_file sock (Some reply) frame conn))) = screen conn"
proof -
  define ch where "ch = send_setup_request (parse_xauthority xauth_file)
      \<lparr>connected = (0 \<le> sock), sent = [], incoming = reply\<rparr>"
  have c: "connected ch" and i: "incoming ch = reply" using assms(1) by (simp_all add: ch_def)
  define buf where "buf = fst (snd (sys_read (mem_bytes frame 0 40) 40 ch))"
  have buf: "buf = take 40 reply @ drop (length (take 40 reply)) (mem_bytes frame 0 40)"
    unfolding buf_def using c i by (simp add: sys_read_buf)
  have st: "status (setup_of_bytes buf) \<noteq> 1"
    using assms(2,3) by (simp add: setup_of_bytes_def buf byte_at_take_append)
  show ?thesis
    unfolding x11_connect_def Let_def split_def
    using st by (simp add: ch_def[symmetric] buf_def[symmetric])
qed

theorem connect_setup_rejected_witness:
  "(0::int) \<le> 3 \<and> [0 :: u8, 0, 11, 0, 0, 0, 0, 0] \<noteq> [] \<and> byte_at [0, 0, 11, 0, 0, 0, 0, 0] 0 \<noteq> 1
   \<and> \<not> fst (x11_connect None 3 (Some [0, 0, 11, 0, 0, 0, 0, 0]) (mem_of_list 0 [1])
               \<lparr>fd = 0, id_ctr = 7, id_inc = 9, screen = screen_of_bytes []\<rparr>)
   \<and> id_ctr (fst (snd (x11_connect None 3 (Some [0, 0, 11, 0, 0, 0, 0, 0]) (mem_of_list 0 [1])
               \<lparr>fd = 0, id_ctr = 7, id_inc = 9, screen = screen_of_bytes []\<rparr>))) = 7
   \<and> id_inc (fst (snd (x11_connect None 3 (Some [0, 0, 11, 0, 0, 0, 0, 0]) (mem_of_list 0 [1])
               \<lparr>fd = 0, id_ctr = 7, id_inc = 9, screen = screen_of_bytes []\<rparr>))) = 9"
  using connect_setup_rejected [of 3 "[0, 0, 11, 0, 0, 0, 0, 0]" None "mem_of_list 0 [1]"
      "\<lparr>fd = 0, id_ctr = 7, id_inc = 9, screen = screen_of_bytes []\<rparr>"]
  by (simp add: byte_at_def)

section \<open>Credential store\<close>

lemma ntohs_be16: "ntohs (ucast (drop_bit 8 w)) (ucast w) = (w :: u16)"
  unfolding ntohs_def by (rule bit_word_eqI) (auto simp: bit_simps)

lemma fread_u16_be16 [simp]: "fread_u16 (be16 w @ rest) = Some (w, rest)"
  by (simp add: fread_u16_def be16_def ntohs_be16)

lemma unat_of_nat_u16: "n < 65536 \<Longrightarrow> unat (of_nat n :: u16) = n"
  by (simp add: unat_of_nat)

lemma fread_counted:
  "length x < 65536 \<Longrightarrow>
     fread_u16 (counted x @ rest) = Some (of_nat (length x), x @ rest)
     \<and> fseek_cur (of_nat (length x)) (x @ rest) = rest
     \<and> fread_bytes (of_nat (length x)) (x @ rest) = Some (x, rest)"
  by (simp add: counted_def fseek_cur_def fread_bytes_def unat_of_nat_u16)

lemma read_record_entry:
  assumes "well_formed_entry e"
  shows "read_record (entry_bytes e @ rest) =
           Some (of_nat (length (entry_name e)), entry_name e,
                 of_nat (length (entry_token e)), entry_token e, rest)"
  using assms unfolding well_formed_entry_def read_record_def entry_bytes_def
  by (simp add: fread_counted)

lemma entry_matches:
  assumes "well_formed_entry e"
  shows "(of_nat (length (entry_name e)) = (18 :: u16) \<and> take 18 (entry_name e) = mit_magic_cookie_1)
           \<longleftrightarrow> entry_name e = mit_magic_cookie_1"
proof -
  have l: "length mit_magic_cookie_1 = 18" by (simp add: mit_magic_cookie_1_def)
  have "length (entry_name e) < 65536" using assms by (simp add: well_formed_entry_def)
  then have u: "unat (of_nat (length (entry_name e)) :: u16) = length (entry_name e)"
    by (rule unat_of_nat_u16)
  have "(of_nat (length (entry_name e)) = (18 :: u16)) \<longleftrightarrow> length (entry_name e) = 18"
  proof
    assume "of_nat (length (entry_name e)) = (18 :: u16)"
    then have "unat (of_nat (length (entry_name e)) :: u16) = unat (18 :: u16)" by simp
    with u show "length (entry_name e) = 18" by simp
  qed simp
  then show ?thesis using l by auto
qed

lemma scan_records_entry:
  assumes "well_formed_entry e"
  shows "scan_records (entry_bytes e @ rest) =
           (if entry_name e = mit_magic_cookie_1 then Some (cookie_of_entry e) else scan_records rest)"
  by (subst scan_records.simps) (simp add: read_record_entry[OF assms] entry_matches[OF assms] cookie_of_entry_def)

lemma scan_records_skip:
  assumes "\<forall>e \<in> set pre. well_formed_entry e \<and> entry_name e \<noteq> mit_magic_cookie_1"
  shows "scan_records (store_bytes pre @ rest) = scan_records rest"
  using assms by (induction pre) (simp_all add: store_bytes_def scan_records_entry)

text \<open>
  C6. In a store that begins with well-formed records none of which carries the name
  \<open>MIT-MAGIC-COOKIE-1\<close>, followed by a well-formed record that does, followed by anything
  at all, \<open>parse_xauthority\<close> returns the cookie of that record: name length 18, the 18
  bytes of the name, and the token exactly as it lies between the length prefixes. The
  records before it are consumed whole and not returned, and nothing after the match is
  looked at.
\<close>

theorem parse_xauthority_first_match:
  assumes "\<forall>e \<in> set pre. well_formed_entry e \<and> entry_name e \<noteq> mit_magic_cookie_1"
    and "well_formed_entry m" and "entry_name m = mit_magic_cookie_1"
  shows "parse_xauthority (Some (store_bytes pre @ entry_bytes m @ rest)) =
           Some \<lparr>cookie_name_len = 18, cookie_name = mit_magic_cookie_1,
                 cookie_data_len = of_nat (length (entry_token m)),
                 cookie_data = entry_token m\<rparr>"
proof -
  have "length mit_magic_cookie_1 = 18" by (simp add: mit_magic_cookie_1_def)
  then show ?thesis
    using assms
    by (simp add: parse_xauthority_def scan_records_skip scan_records_entry cookie_of_entry_def)
qed

theorem parse_xauthority_first_match_witness:
  "well_formed_entry \<lparr>entry_family = 256, entry_address = [1, 2], entry_display = [0x30],
         entry_name = [0x58], entry_token = [5]\<rparr>
   \<and> [0x58] \<noteq> mit_magic_cookie_1
   \<and> well_formed_entry \<lparr>entry_family = 256, entry_address = [3], entry_display = [],
         entry_name = mit_magic_cookie_1, entry_token = [9, 8, 7]\<rparr>
   \<and> parse_xauthority (Some (
         store_bytes [\<lparr>entry_family = 256, entry_address = [1, 2], entry_display = [0x30],
                       entry_name = [0x58], entry_token = [5]\<rparr>]
         @ entry_bytes \<lparr>entry_family = 256, entry_address = [3], entry_display = [],
             entry_name = mit_magic_cookie_1, entry_token = [9, 8, 7]\<rparr>
         @ [0xFF]))
       = Some \<lparr>cookie_name_len = 18, cookie_name = mit_magic_cookie_1, cookie_data_len = 3,
               cookie_data = [9, 8, 7]\<rparr>"
  using parse_xauthority_first_match [of
      "[\<lparr>entry_family = 256, entry_address = [1, 2], entry_display = [0x30],
         entry_name = [0x58], entry_token = [5]\<rparr>]"
      "\<lparr>entry_family = 256, entry_address = [3], entry_display = [],
         entry_name = mit_magic_cookie_1, entry_token = [9, 8, 7]\<rparr>" "[0xFF]"]
  by (simp add: well_formed_entry_def mit_magic_cookie_1_def)

lemma fread_u16_append:
  "fread_u16 f = Some (x, f') \<Longrightarrow> fread_u16 (f @ g) = Some (x, f' @ g)"
  by (auto simp: fread_u16_def split: list.splits)

lemma fread_bytes_append:
  "fread_bytes n f = Some (x, f') \<Longrightarrow> fread_bytes n (f @ g) = Some (x, f' @ g)"
  by (auto simp: fread_bytes_def split: if_splits)

lemma fread_u16_after_seek:
  "fread_u16 (fseek_cur n f) = Some (x, f') \<Longrightarrow> fread_u16 (fseek_cur n (f @ g)) = Some (x, f' @ g)"
proof -
  assume a: "fread_u16 (fseek_cur n f) = Some (x, f')"
  then have "fseek_cur n f \<noteq> []" by (auto simp: fread_u16_def)
  then have "unat n \<le> length f" by (simp add: fseek_cur_def)
  then have "fseek_cur n (f @ g) = fseek_cur n f @ g" by (simp add: fseek_cur_def)
  with a show ?thesis by (simp add: fread_u16_append)
qed

lemma read_record_append:
  assumes "read_record f = Some (nl, n, dl, d, f')"
  shows "read_record (f @ g) = Some (nl, n, dl, d, f' @ g)"
proof -
  from assms obtain family f1 address_len f2 display_len f3 f4 f5 f6 where
    1: "fread_u16 f = Some (family, f1)" and
    2: "fread_u16 f1 = Some (address_len, f2)" and
    3: "fread_u16 (fseek_cur address_len f2) = Some (display_len, f3)" and
    4: "fread_u16 (fseek_cur display_len f3) = Some (nl, f4)" and
    5: "fread_bytes nl f4 = Some (n, f5)" and
    6: "fread_u16 f5 = Some (dl, f6)" and
    7: "fread_bytes dl f6 = Some (d, f')"
    unfolding read_record_def by (auto simp: bind_eq_Some_conv)
  show ?thesis
    unfolding read_record_def
    using fread_u16_append[OF 1, of g] fread_u16_append[OF 2, of g]
      fread_u16_after_seek[OF 3, of g] fread_u16_after_seek[OF 4, of g]
      fread_bytes_append[OF 5, of g] fread_u16_append[OF 6, of g] fread_bytes_append[OF 7, of g]
    by simp
qed

lemma read_record_truncated:
  assumes "well_formed_entry e" and "k < length (entry_bytes e)"
  shows "read_record (take k (entry_bytes e)) = None"
proof (rule ccontr)
  assume "read_record (take k (entry_bytes e)) \<noteq> None"
  then obtain nl n dl d f' where "read_record (take k (entry_bytes e)) = Some (nl, n, dl, d, f')"
    by auto
  from read_record_append[OF this, of "drop k (entry_bytes e)"]
  have "read_record (entry_bytes e) = Some (nl, n, dl, d, f' @ drop k (entry_bytes e))" by simp
  moreover have "read_record (entry_bytes e) = Some (of_nat (length (entry_name e)), entry_name e,
                 of_nat (length (entry_token e)), entry_token e, [])"
    using read_record_entry[OF assms(1), of "[]"] by simp
  ultimately have "drop k (entry_bytes e) = []" by simp
  with assms(2) show False by simp
qed

lemma scan_records_break: "read_record f = None \<Longrightarrow> scan_records f = None"
  by (subst scan_records.simps) simp

lemma send_setup_request_None:
  "sent (send_setup_request None ch) =
     (if connected ch then sent ch @ [0x6C, 0, 11, 0, 0, 0, 0, 0, 0, 0, 0, 0] else sent ch)"
  by (simp add: send_setup_request_def sys_write_def x11_setup_request_t_def le16_def)

lemma connect_sent:
  "sent (snd (snd (x11_connect xauth_file sock peer frame conn))) =
     sent (send_setup_request (parse_xauthority xauth_file)
       \<lparr>connected = (0 \<le> sock \<and> peer \<noteq> None), sent = [],
        incoming = (case peer of None \<Rightarrow> [] | Some s \<Rightarrow> s)\<rparr>)"
  unfolding x11_connect_def Let_def split_def by simp

text \<open>
  C7. \<open>parse_xauthority\<close> answers "no credential" and has no error result: when the file
  cannot be opened, when it is empty, when the record at the read position cannot be read
  in full, and when well-formed records without the expected name are followed by a
  record cut off at any point before its end. With no credential \<open>x11_connect\<close> still
  goes on: it sends the 12-byte setup request with both authentication lengths 0 and
  nothing after it, and its result is decided by the status of the reply alone.
\<close>

theorem parse_xauthority_not_found:
  "parse_xauthority None = None
   \<and> parse_xauthority (Some []) = None
   \<and> ((\<forall>e \<in> set pre. well_formed_entry e \<and> entry_name e \<noteq> mit_magic_cookie_1)
        \<and> read_record f = None
        \<longrightarrow> parse_xauthority (Some (store_bytes pre @ f)) = None)
   \<and> ((\<forall>e \<in> set pre. well_formed_entry e \<and> entry_name e \<noteq> mit_magic_cookie_1)
        \<and> well_formed_entry e \<and> k < length (entry_bytes e)
        \<longrightarrow> parse_xauthority (Some (store_bytes pre @ take k (entry_bytes e))) = None)
   \<and> (parse_xauthority xauth_file = None \<and> 0 \<le> sock \<longrightarrow>
        sent (snd (snd (x11_connect xauth_file sock (Some reply) frame conn)))
          = x11_setup_request_t 0x6C 11 0 0 0
        \<and> rd16 (sent (snd (snd (x11_connect xauth_file sock (Some reply) frame conn)))) 6 = 0
        \<and> rd16 (sent (snd (snd (x11_connect xauth_file sock (Some reply) frame conn)))) 8 = 0
        \<and> length (sent (snd (snd (x11_connect xauth_file sock (Some reply) frame conn)))) = 12
        \<and> (fst (x11_connect xauth_file sock (Some reply) frame conn)
             \<longleftrightarrow> status (setup_of_bytes (take 40 reply @ drop (length (take 40 reply)) (mem_bytes frame 0 40))) = 1))"
proof -
  have 1: "parse_xauthority None = None" by (simp add: parse_xauthority_def)
  have 3: "parse_xauthority (Some (store_bytes pre @ f)) = None"
    if "\<forall>e \<in> set pre. well_formed_entry e \<and> entry_name e \<noteq> mit_magic_cookie_1"
      and "read_record f = None" for f
    using that by (simp add: parse_xauthority_def scan_records_skip scan_records_break)
  have "read_record [] = None" by (simp add: read_record_def fread_u16_def)
  then have 2: "parse_xauthority (Some []) = None"
    by (simp add: parse_xauthority_def scan_records_break)
  have 4: "parse_xauthority (Some (store_bytes pre @ take k (entry_bytes e))) = None"
    if "\<forall>e \<in> set pre. well_formed_entry e \<and> entry_name e \<noteq> mit_magic_cookie_1"
      and "well_formed_entry e" and "k < length (entry_bytes e)"
    using that
    by (simp add: parse_xauthority_def scan_records_skip scan_records_break read_record_truncated)
  have 5: "sent (snd (snd (x11_connect xauth_file sock (Some reply) frame conn)))
          = x11_setup_request_t 0x6C 11 0 0 0"
    if "parse_xauthority xauth_file = None" and "0 \<le> sock"
    using that by (simp add: connect_sent send_setup_request_None x11_setup_request_t_def le16_def)
  have 6: "fst (x11_connect xauth_file sock (Some reply) frame conn)
             \<longleftrightarrow> status (setup_of_bytes (take 40 reply @ drop (length (take 40 reply)) (mem_bytes frame 0 40))) = 1"
    if "0 \<le> sock"
    unfolding x11_connect_def Let_def split_def
    using that by (simp add: sys_read_buf)
  have 7: "rd16 (x11_setup_request_t 0x6C 11 0 0 0) 6 = 0 \<and> rd16 (x11_setup_request_t 0x6C 11 0 0 0) 8 = 0
      \<and> length (x11_setup_request_t 0x6C 11 0 0 0) = 12"
    by (simp add: x11_setup_request_t_def le16_def rd16_def byte_at_def)
  show ?thesis using 1 2 3 4 5 6 7 by simp
qed

theorem parse_xauthority_not_found_witness:
  "read_record [0, 1, 0] = None
   \<and> parse_xauthority (Some (
         store_bytes [\<lparr>entry_family = 256, entry_address = [1, 2], entry_display = [0x30],
                       entry_name = [0x58], entry_token = [5]\<rparr>]
         @ [0, 1, 0])) = None
   \<and> well_formed_entry \<lparr>entry_family = 256, entry_address = [1, 2], entry_display = [0x30],
         entry_name = [0x58], entry_token = [5]\<rparr>
   \<and> [0x58] \<noteq> mit_magic_cookie_1
   \<and> well_formed_entry \<lparr>entry_family = 256, entry_address = [3], entry_display = [],
         entry_name = mit_magic_cookie_1, entry_token = [9, 8, 7]\<rparr>
   \<and> 30 < length (entry_bytes \<lparr>entry_family = 256, entry_address = [3], entry_display = [],
         entry_name = mit_magic_cookie_1, entry_token = [9, 8, 7]\<rparr>)
   \<and> parse_xauthority (Some (
         store_bytes [\<lparr>entry_family = 256, entry_address = [1, 2], entry_display = [0x30],
                       entry_name = [0x58], entry_token = [5]\<rparr>]
         @ take 30 (entry_bytes \<lparr>entry_family = 256, entry_address = [3], entry_display = [],
             entry_name = mit_magic_cookie_1, entry_token = [9, 8, 7]\<rparr>))) = None
   \<and> parse_xauthority None = None \<and> (0::int) \<le> 3
   \<and> sent (snd (snd (x11_connect None 3 (Some [1]) (mem_of_list 0 [])
         \<lparr>fd = 0, id_ctr = 0, id_inc = 0, screen = screen_of_bytes []\<rparr>)))
       = [0x6C, 0, 11, 0, 0, 0, 0, 0, 0, 0, 0, 0]"
proof -
  let ?pre = "[\<lparr>entry_family = 256, entry_address = [1, 2], entry_display = [0x30],
         entry_name = [0x58], entry_token = [5]\<rparr>]"
  let ?m = "\<lparr>entry_family = 256, entry_address = [3], entry_display = [],
         entry_name = mit_magic_cookie_1, entry_token = [9, 8, 7]\<rparr>"
  let ?conn = "\<lparr>fd = 0, id_ctr = 0, id_inc = 0, screen = screen_of_bytes []\<rparr>"
  note T = parse_xauthority_not_found [of ?pre "[0, 1, 0]" ?m 30 None 3 "[1]" "mem_of_list 0 []" ?conn]
  have r: "read_record [0, 1, 0] = None"
    by (simp add: read_record_def fread_u16_def)
  have h1: "\<forall>e \<in> set ?pre. well_formed_entry e \<and> entry_name e \<noteq> mit_magic_cookie_1"
    by (simp add: well_formed_entry_def mit_magic_cookie_1_def)
  have h2: "well_formed_entry ?m"
    by (simp add: well_formed_entry_def mit_magic_cookie_1_def)
  have h3: "30 < length (entry_bytes ?m)"
    by (simp add: entry_bytes_def counted_def be16_def mit_magic_cookie_1_def)
  have h4: "parse_xauthority None = None" "(0::int) \<le> 3" using T by simp_all
  have h5: "x11_setup_request_t 0x6C 11 0 0 0 = [0x6C, 0, 11, 0, 0, 0, 0, 0, 0, 0, 0, 0]"
    by (simp add: x11_setup_request_t_def le16_def)
  have c1: "parse_xauthority (Some (store_bytes ?pre @ [0, 1, 0])) = None"
    using T h1 r by blast
  have c2: "parse_xauthority (Some (store_bytes ?pre @ take 30 (entry_bytes ?m))) = None"
    using T h1 h2 h3 by blast
  have c3: "sent (snd (snd (x11_connect None 3 (Some [1]) (mem_of_list 0 []) ?conn)))
       = [0x6C, 0, 11, 0, 0, 0, 0, 0, 0, 0, 0, 0]"
    using T h4 unfolding h5 by blast
  have h0: "well_formed_entry \<lparr>entry_family = 256, entry_address = [1, 2],
         entry_display = [0x30], entry_name = [0x58], entry_token = [5]\<rparr>"
      "[0x58] \<noteq> mit_magic_cookie_1"
    using h1 by simp_all
  show ?thesis using r c1 h0 h2 h3 c2 h4 c3 by blast
qed

section \<open>Requests\<close>

lemma length_mem_bytes [simp]: "length (mem_bytes mem p n) = n"
  by (simp add: mem_bytes_def)

lemma mem_bytes_split: "k \<le> n \<Longrightarrow> mem_bytes mem p n = mem_bytes mem p k @ mem_bytes mem (p + k) (n - k)"
  unfolding mem_bytes_def
  by (metis add.assoc le_add_diff_inverse map_append upt_add_eq_append le_add1 zero_le add_0 le0)

lemma emitted_two_writes:
  "connected ch \<Longrightarrow> emitted ch (sys_write b (sys_write a ch)) = a @ b"
  by (simp add: emitted_def sys_write_def)

lemma div4_mod: "((x::nat) mod 2 ^ 64 div 4) mod 2 ^ 16 = (x div 4) mod 2 ^ 16"
proof -
  have "(x mod 2 ^ 64 div 4) mod 2 ^ 16 = take_bit 16 (drop_bit 2 (take_bit 64 x))"
    by (simp add: take_bit_eq_mod drop_bit_eq_div)
  also have "\<dots> = take_bit 16 (drop_bit 2 x)"
    by (simp add: drop_bit_take_bit)
  also have "\<dots> = (x div 4) mod 2 ^ 16"
    by (simp add: take_bit_eq_mod drop_bit_eq_div)
  finally show ?thesis .
qed

lemma length_field:
  "unat (ucast ((c + s) div 4 :: size_t) :: u16) = ((unat c + unat s) div 4) mod 65536"
proof -
  have "unat (ucast ((c + s) div 4 :: size_t) :: u16) = unat ((c + s) div 4) mod 2 ^ 16"
    by (simp add: unsigned_ucast_eq take_bit_eq_mod)
  also have "\<dots> = ((unat c + unat s) mod 2 ^ 64 div 4) mod 2 ^ 16"
    by (simp add: unat_div unat_word_ariths)
  finally show ?thesis by (simp only: div4_mod) simp
qed

lemma and_not_3_word: "(w :: size_t) AND NOT 3 = w div 4 * 4"
proof -
  have "w AND NOT (mask 2) = push_bit 2 (drop_bit 2 w)"
  proof (rule bit_word_eqI)
    fix n assume "n < LENGTH(64)"
    show "bit (w AND NOT (mask 2)) n = bit (push_bit 2 (drop_bit 2 w)) n"
    proof (cases "n < 2")
      case True
      then show ?thesis by (simp add: bit_simps)
    next
      case False
      then obtain m where "n = 2 + m" using le_Suc_ex[of 2 n] by auto
      then show ?thesis by (auto simp: bit_simps)
    qed
  qed
  moreover have "(mask 2 :: size_t) = 3" by (simp add: mask_eq_exp_minus_1)
  ultimately show ?thesis by (simp add: push_bit_eq_mult drop_bit_eq_div)
qed

lemma unat_aligned: "unat ((w :: size_t) AND NOT 3) = unat w div 4 * 4"
proof -
  have "unat w < 2 ^ 64" using unsigned_less[of w, where 'a = nat] by simp
  then have "unat w div 4 * 4 < 2 ^ 64" by simp
  then have m: "(unat w div 4 * 4) mod 2 ^ 64 = unat w div 4 * 4" by simp
  have "unat (w AND NOT 3) = unat (w div 4 * 4)" by (simp only: and_not_3_word)
  also have "\<dots> = (unat w div 4 * 4) mod 2 ^ 64"
    by (simp add: unat_word_ariths unat_div mod_mult_left_eq)
  finally show ?thesis using m by simp
qed

lemma aligned_size_eq: "aligned_size L = (L + 3) div 4 * 4"
proof -
  have "(int L + 3) AND NOT (mask 2) = push_bit 2 (drop_bit 2 (int L + 3))"
  proof (rule bit_eqI)
    fix n
    show "bit ((int L + 3) AND NOT (mask 2)) n = bit (push_bit 2 (drop_bit 2 (int L + 3))) n"
    proof (cases "n < 2")
      case True
      then show ?thesis by (simp add: bit_simps)
    next
      case False
      then obtain m where "n = 2 + m" using le_Suc_ex[of 2 n] by auto
      then show ?thesis by (auto simp: bit_simps)
    qed
  qed
  moreover have "(mask 2 :: int) = 3" by (simp add: mask_eq_exp_minus_1)
  ultimately have "(int L + 3) AND NOT 3 = (int L + 3) div 4 * 4"
    by (simp add: push_bit_eq_mult drop_bit_eq_div)
  also have "\<dots> = int ((L + 3) div 4 * 4)"
    by (simp add: zdiv_int)
  finally show ?thesis by (simp add: aligned_size_def)
qed

lemma open_font_header:
  "length (x11_open_font_request_t op len fid nl) = 12
   \<and> rd16 (x11_open_font_request_t op len fid nl @ rest) 2 = len"
  by (simp add: x11_open_font_request_t_def le16_def le32_def rd16_def byte_at_def rd16_le16)

lemma change_property_header:
  "length (x11_change_property_request_t op mode len window property type format dl) = 24
   \<and> rd16 (x11_change_property_request_t op mode len window property type format dl @ rest) 2 = len"
  by (simp add: x11_change_property_request_t_def le16_def le32_def rd16_def byte_at_def rd16_le16)

lemma image_text_8_header:
  "length (x11_image_text_8_request_t op sl len drawable gc x y) = 16
   \<and> rd16 (x11_image_text_8_request_t op sl len drawable gc x y @ rest) 2 = len
   \<and> byte_at (x11_image_text_8_request_t op sl len drawable gc x y @ rest) (Suc 0) = sl"
  by (simp add: x11_image_text_8_request_t_def le16_def le32_def rd16_def byte_at_def rd16_le16)

lemma create_gc_header:
  "length (x11_create_gc_request_t op len cid drawable value_mask) = 16
   \<and> rd16 (x11_create_gc_request_t op len cid drawable value_mask @ rest) 2 = len"
  by (simp add: x11_create_gc_request_t_def le16_def le32_def rd16_def byte_at_def rd16_le16)

lemma configure_window_header:
  "length (x11_configure_window_request_t op len window value_mask) = 12
   \<and> rd16 (x11_configure_window_request_t op len window value_mask @ rest) 2 = len"
  by (simp add: x11_configure_window_request_t_def le16_def le32_def rd16_def byte_at_def rd16_le16)

lemma create_window_header_length:
  "length (x11_create_window_request_t op depth len wid parent x y width height border_width
      class visual value_mask) = 32"
  by (simp add: x11_create_window_request_t_def le16_def le32_def)

lemma create_window_header_len:
  "rd16 (x11_create_window_request_t op depth len wid parent x y width height border_width
      class visual value_mask @ rest) 2 = len"
  by (simp add: x11_create_window_request_t_def le16_def le32_def rd16_def byte_at_def rd16_le16)

lemma emitted_open_font:
  "connected ch \<Longrightarrow> A = (name_size + 3) AND NOT 3 \<Longrightarrow>
     emitted ch (x11_open_font ch mem fid name name_size) =
     x11_open_font_request_t X11_OPEN_FONT (ucast ((12 + A) div 4)) fid (ucast name_size)
     @ mem_bytes mem name (unat A)"
  by (simp add: x11_open_font_def Let_def emitted_two_writes)

lemma emitted_change_property:
  "connected ch \<Longrightarrow> A = (data_size + 3) AND NOT 3 \<Longrightarrow>
     emitted ch (x11_change_property ch mem mode window property type format data data_size) =
     x11_change_property_request_t X11_CHANGE_PROPERTY mode
       (ucast ((24 + A) div 4)) window property type format (ucast data_size)
     @ mem_bytes mem data (unat A)"
  by (simp add: x11_change_property_def Let_def emitted_two_writes)

lemma emitted_image_text_8:
  "connected ch \<Longrightarrow> A = (string_size + 3) AND NOT 3 \<Longrightarrow>
     emitted ch (x11_image_text_8 ch mem drawable gc x y string string_size) =
     x11_image_text_8_request_t X11_IMAGE_TEXT_8 (ucast string_size)
       (ucast ((16 + A) div 4)) drawable gc x y
     @ mem_bytes mem string (unat A)"
  by (simp add: x11_image_text_8_def Let_def emitted_two_writes)

lemma emitted_create_gc:
  "connected ch \<Longrightarrow>
     emitted ch (x11_create_gc ch mem cid drawable value_mask value_list value_list_size) =
     x11_create_gc_request_t X11_CREATE_GC (ucast ((16 + value_list_size) div 4)) cid drawable
       value_mask
     @ mem_bytes mem value_list (unat value_list_size)"
  by (simp add: x11_create_gc_def Let_def emitted_two_writes)

lemma emitted_create_window:
  "connected ch \<Longrightarrow>
     emitted ch (x11_create_window ch mem depth wid parent x y width height border_width class
        visual value_mask value_list value_list_size) =
     x11_create_window_request_t X11_CREATE_WINDOW depth (ucast ((32 + value_list_size) div 4))
       wid parent x y width height border_width class visual value_mask
     @ mem_bytes mem value_list (unat value_list_size)"
  by (simp add: x11_create_window_def Let_def emitted_two_writes)

lemma emitted_configure_window:
  "connected ch \<Longrightarrow>
     emitted ch (x11_configure_window ch mem window value_mask value_list value_list_size) =
     x11_configure_window_request_t X11_CONFIGURE_WINDOW (ucast ((12 + value_list_size) div 4))
       window (ucast value_mask)
     @ mem_bytes mem value_list (unat value_list_size)"
  by (simp add: x11_configure_window_def Let_def emitted_two_writes)

lemma padded_length_field:
  assumes "unat c = 4 * c'" and "A = ((L :: size_t) + 3) AND NOT 3"
  shows "unat (ucast ((c + A) div 4 :: size_t) :: u16)
           = ((unat c + aligned_size (unat L)) div 4) mod 65536"
proof -
  let ?q = "unat L + 3"
  have "unat A = (?q mod 2 ^ 64) div 4 * 4"
    unfolding assms(2) by (simp only: unat_aligned) (simp add: unat_word_ariths)
  then have "unat (ucast ((c + A) div 4 :: size_t) :: u16)
         = ((4 * c' + (?q mod 2 ^ 64) div 4 * 4) div 4) mod 65536"
    by (simp only: length_field assms(1))
  also have "\<dots> = (c' + (?q mod 2 ^ 64) div 4) mod 2 ^ 16" by simp
  also have "\<dots> = (c' + ((?q mod 2 ^ 64) div 4) mod 2 ^ 16) mod 2 ^ 16"
    by (simp only: mod_add_right_eq)
  also have "\<dots> = (c' + (?q div 4) mod 2 ^ 16) mod 2 ^ 16" by (simp only: div4_mod)
  also have "\<dots> = (c' + ?q div 4) mod 2 ^ 16" by (simp only: mod_add_right_eq)
  also have "\<dots> = ((4 * c' + ?q div 4 * 4) div 4) mod 65536" by simp
  finally show ?thesis by (simp only: assms(1) aligned_size_eq)
qed

lemma padded_payload:
  assumes "unat (L :: size_t) + 3 < 2 ^ 64" and "A = (L + 3) AND NOT 3"
  shows "unat A = aligned_size (unat L)"
    and "unat L \<le> aligned_size (unat L)"
    and "take (unat L) (mem_bytes mem p (aligned_size (unat L))) = mem_bytes mem p (unat L)"
    and "drop (unat L) (mem_bytes mem p (aligned_size (unat L)))
           = mem_bytes mem (p + unat L) (aligned_size (unat L) - unat L)"
proof -
  have "unat (L + 3) = unat L + 3" using assms(1) by (simp add: unat_word_ariths)
  then show "unat A = aligned_size (unat L)"
    unfolding assms(2) by (simp only: unat_aligned aligned_size_eq)
  show le: "unat L \<le> aligned_size (unat L)" unfolding aligned_size_eq by presburger
  show "take (unat L) (mem_bytes mem p (aligned_size (unat L))) = mem_bytes mem p (unat L)"
    using mem_bytes_split[OF le, of mem p] by simp
  show "drop (unat L) (mem_bytes mem p (aligned_size (unat L)))
           = mem_bytes mem (p + unat L) (aligned_size (unat L) - unat L)"
    using mem_bytes_split[OF le, of mem p] by simp
qed

lemma aligned_size_5: "aligned_size 5 = 8" by (simp add: aligned_size_eq)

text \<open>
  C1, as amended. For open-font (header 12 bytes), change-property (24) and image-text-8
  (16) with a payload of \<open>L\<close> bytes on a connected socket: the 2-byte length field holds
  \<open>(header size + ((L + 3) & ~3)) / 4\<close> reduced modulo \<open>2 ^ 16\<close>, hence that quotient itself
  whenever it is below 65536; and, for \<open>L \<le> 2 ^ 64 - 4\<close>, the header is followed by the
  \<open>L\<close> payload bytes and then by exactly \<open>((L + 3) & ~3) - L\<close> further bytes. What those
  further bytes are is not part of the statement.
\<close>

theorem byte_payload_requests:
  assumes "connected ch"
  shows "unat (rd16 (emitted ch (x11_open_font ch mem fid p L)) 2)
           = ((12 + aligned_size (unat L)) div 4) mod 65536
       \<and> unat (rd16 (emitted ch (x11_change_property ch mem mode window property type format p L)) 2)
           = ((24 + aligned_size (unat L)) div 4) mod 65536
       \<and> unat (rd16 (emitted ch (x11_image_text_8 ch mem drawable gc x y p L)) 2)
           = ((16 + aligned_size (unat L)) div 4) mod 65536
       \<and> (unat L + 3 < 2 ^ 64 \<longrightarrow>
           length (emitted ch (x11_open_font ch mem fid p L)) = 12 + aligned_size (unat L)
           \<and> take (unat L) (drop 12 (emitted ch (x11_open_font ch mem fid p L)))
               = mem_bytes mem p (unat L)
           \<and> length (drop (12 + unat L) (emitted ch (x11_open_font ch mem fid p L)))
               = aligned_size (unat L) - unat L
           \<and> length (emitted ch (x11_change_property ch mem mode window property type format p L))
               = 24 + aligned_size (unat L)
           \<and> take (unat L) (drop 24
                 (emitted ch (x11_change_property ch mem mode window property type format p L)))
               = mem_bytes mem p (unat L)
           \<and> length (drop (24 + unat L)
                 (emitted ch (x11_change_property ch mem mode window property type format p L)))
               = aligned_size (unat L) - unat L
           \<and> length (emitted ch (x11_image_text_8 ch mem drawable gc x y p L))
               = 16 + aligned_size (unat L)
           \<and> take (unat L) (drop 16 (emitted ch (x11_image_text_8 ch mem drawable gc x y p L)))
               = mem_bytes mem p (unat L)
           \<and> length (drop (16 + unat L) (emitted ch (x11_image_text_8 ch mem drawable gc x y p L)))
               = aligned_size (unat L) - unat L)"
proof -
  define A where "A = (L + 3) AND NOT 3"
  note op = emitted_open_font[OF assms A_def]
  note cp = emitted_change_property[OF assms A_def]
  note it = emitted_image_text_8[OF assms A_def]
  have 1: "unat (rd16 (emitted ch (x11_open_font ch mem fid p L)) 2)
           = ((12 + aligned_size (unat L)) div 4) mod 65536"
    using padded_length_field[of 12 3 A L] by (simp add: op open_font_header A_def)
  have 2: "unat (rd16 (emitted ch (x11_change_property ch mem mode window property type format p L)) 2)
           = ((24 + aligned_size (unat L)) div 4) mod 65536"
    using padded_length_field[of 24 6 A L] by (simp add: cp change_property_header A_def)
  have 3: "unat (rd16 (emitted ch (x11_image_text_8 ch mem drawable gc x y p L)) 2)
           = ((16 + aligned_size (unat L)) div 4) mod 65536"
    using padded_length_field[of 16 4 A L] by (simp add: it image_text_8_header A_def)
  have 4: "length (emitted ch (x11_open_font ch mem fid p L)) = 12 + aligned_size (unat L)
           \<and> take (unat L) (drop 12 (emitted ch (x11_open_font ch mem fid p L)))
               = mem_bytes mem p (unat L)
           \<and> length (drop (12 + unat L) (emitted ch (x11_open_font ch mem fid p L)))
               = aligned_size (unat L) - unat L"
    if "unat L + 3 < 2 ^ 64"
    using padded_payload[OF that A_def] by (simp add: op open_font_header)
  have 5: "length (emitted ch (x11_change_property ch mem mode window property type format p L))
               = 24 + aligned_size (unat L)
           \<and> take (unat L) (drop 24
                 (emitted ch (x11_change_property ch mem mode window property type format p L)))
               = mem_bytes mem p (unat L)
           \<and> length (drop (24 + unat L)
                 (emitted ch (x11_change_property ch mem mode window property type format p L)))
               = aligned_size (unat L) - unat L"
    if "unat L + 3 < 2 ^ 64"
    using padded_payload[OF that A_def] by (simp add: cp change_property_header)
  have 6: "length (emitted ch (x11_image_text_8 ch mem drawable gc x y p L))
               = 16 + aligned_size (unat L)
           \<and> take (unat L) (drop 16 (emitted ch (x11_image_text_8 ch mem drawable gc x y p L)))
               = mem_bytes mem p (unat L)
           \<and> length (drop (16 + unat L) (emitted ch (x11_image_text_8 ch mem drawable gc x y p L)))
               = aligned_size (unat L) - unat L"
    if "unat L + 3 < 2 ^ 64"
    using padded_payload[OF that A_def] by (simp add: it image_text_8_header)
  show ?thesis using 1 2 3 4 5 6 by blast
qed

theorem byte_payload_requests_witness:
  "connected \<lparr>connected = True, sent = [], incoming = []\<rparr>
   \<and> unat (5 :: size_t) + 3 < 2 ^ 64
   \<and> unat (rd16 (emitted \<lparr>connected = True, sent = [], incoming = []\<rparr>
        (x11_open_font \<lparr>connected = True, sent = [], incoming = []\<rparr>
           (mem_of_list 100 [0x66, 0x69, 0x78, 0x65, 0x64, 0, 0, 0]) 1 100 5)) 2) = 5
   \<and> take 5 (drop 12 (emitted \<lparr>connected = True, sent = [], incoming = []\<rparr>
        (x11_open_font \<lparr>connected = True, sent = [], incoming = []\<rparr>
           (mem_of_list 100 [0x66, 0x69, 0x78, 0x65, 0x64, 0, 0, 0]) 1 100 5)))
       = [0x66, 0x69, 0x78, 0x65, 0x64]
   \<and> length (drop (12 + 5) (emitted \<lparr>connected = True, sent = [], incoming = []\<rparr>
        (x11_open_font \<lparr>connected = True, sent = [], incoming = []\<rparr>
           (mem_of_list 100 [0x66, 0x69, 0x78, 0x65, 0x64, 0, 0, 0]) 1 100 5))) = 3"
proof -
  have m: "mem_bytes (mem_of_list 100 [0x66, 0x69, 0x78, 0x65, 0x64, 0, 0, 0]) 100 5
      = [0x66, 0x69, 0x78, 0x65, 0x64]"
    by (simp add: mem_bytes_def mem_of_list_def)
  show ?thesis
    using byte_payload_requests [of "\<lparr>connected = True, sent = [], incoming = []\<rparr>"
        "mem_of_list 100 [0x66, 0x69, 0x78, 0x65, 0x64, 0, 0, 0]" 1 100 5]
    by (simp add: aligned_size_5 m)
qed

text \<open>
  The statement without the amendments fails twice. The padding is read from the memory
  behind the payload and is not zero when that memory is not: the five bytes \<open>fixed\<close>
  followed in memory by \<open>00 48 65\<close> are sent with exactly these three bytes as padding.
  And a payload of 262144 bytes gives the quotient 65539, of which the length field
  keeps 3.
\<close>

theorem byte_payload_requests_counterexample:
  "drop (12 + 5) (emitted \<lparr>connected = True, sent = [], incoming = []\<rparr>
        (x11_open_font \<lparr>connected = True, sent = [], incoming = []\<rparr>
           (mem_of_list 100 [0x66, 0x69, 0x78, 0x65, 0x64, 0x00, 0x48, 0x65]) 1 100 5))
     = [0x00, 0x48, 0x65]
   \<and> drop (12 + 5) (emitted \<lparr>connected = True, sent = [], incoming = []\<rparr>
        (x11_open_font \<lparr>connected = True, sent = [], incoming = []\<rparr>
           (mem_of_list 100 [0x66, 0x69, 0x78, 0x65, 0x64, 0x00, 0x48, 0x65]) 1 100 5))
     \<noteq> replicate (aligned_size 5 - 5) 0
   \<and> unat (rd16 (emitted \<lparr>connected = True, sent = [], incoming = []\<rparr>
        (x11_open_font \<lparr>connected = True, sent = [], incoming = []\<rparr>
           (mem_of_list 100 []) 1 100 262144)) 2) = 3
   \<and> unat (rd16 (emitted \<lparr>connected = True, sent = [], incoming = []\<rparr>
        (x11_open_font \<lparr>connected = True, sent = [], incoming = []\<rparr>
           (mem_of_list 100 []) 1 100 262144)) 2) \<noteq> (12 + aligned_size 262144) div 4"
proof -
  let ?ch = "\<lparr>connected = True, sent = [], incoming = []\<rparr>"
  let ?mem = "mem_of_list 100 [0x66, 0x69, 0x78, 0x65, 0x64, 0x00, 0x48, 0x65]"
  define A :: size_t where "A = (5 + 3) AND NOT 3"
  have c: "connected ?ch" by simp
  have A: "unat A = 8"
    using padded_payload(1)[of 5 A] by (simp add: A_def aligned_size_5)
  have "mem_bytes ?mem 100 8 = [0x66, 0x69, 0x78, 0x65, 0x64, 0x00, 0x48, 0x65]"
    by (simp add: mem_bytes_def mem_of_list_def)
  then have 1: "drop (12 + 5) (emitted ?ch (x11_open_font ?ch ?mem 1 100 5)) = [0x00, 0x48, 0x65]"
    by (simp add: emitted_open_font[OF c A_def] A open_font_header)
  define B :: size_t where "B = (262144 + 3) AND NOT 3"
  have 2: "unat (rd16 (emitted ?ch (x11_open_font ?ch (mem_of_list 100 []) 1 100 262144)) 2) = 3"
    using padded_length_field[of 12 3 B 262144]
    by (simp add: emitted_open_font[OF c B_def] open_font_header B_def aligned_size_eq)
  have 3: "(12 + aligned_size 262144) div 4 = 65539" by (simp add: aligned_size_eq)
  have 4: "replicate 3 (0 :: u8) = [0, 0, 0]" by (simp add: numeral_3_eq_3)
  show ?thesis using 1 2 3 by (simp add: aligned_size_5 4)
qed

text \<open>
  In general the bytes behind the payload of an open-font request are the contents of the
  memory behind the caller's buffer.
\<close>

lemma open_font_padding_from_memory:
  assumes "connected ch" and "unat L + 3 < 2 ^ 64"
  shows "drop (12 + unat L) (emitted ch (x11_open_font ch mem fid p L))
           = mem_bytes mem (p + unat L) (aligned_size (unat L) - unat L)"
proof -
  define A where "A = (L + 3) AND NOT 3"
  show ?thesis
    using padded_payload[OF assms(2) A_def]
    by (simp add: emitted_open_font[OF assms(1) A_def] open_font_header flip: drop_drop)
qed

text \<open>
  C8, as amended. For create-GC (header 16 bytes), create-window (32) and configure-window
  (12) with a value list of \<open>n\<close> bytes on a connected socket: the header is followed by
  exactly the \<open>n\<close> bytes of the list and nothing else, and the 2-byte length field holds
  \<open>(header size + n) / 4\<close> reduced modulo \<open>2 ^ 16\<close>, hence that quotient itself whenever
  it is below 65536.
\<close>

theorem value_list_requests:
  assumes "connected ch"
  shows "drop 16 (emitted ch (x11_create_gc ch mem cid drawable value_mask p n)) = mem_bytes mem p (unat n)
       \<and> length (emitted ch (x11_create_gc ch mem cid drawable value_mask p n)) = 16 + unat n
       \<and> unat (rd16 (emitted ch (x11_create_gc ch mem cid drawable value_mask p n)) 2)
           = ((16 + unat n) div 4) mod 65536
       \<and> drop 32 (emitted ch (x11_create_window ch mem depth wid parent x y width height
             border_width class visual value_mask p n)) = mem_bytes mem p (unat n)
       \<and> length (emitted ch (x11_create_window ch mem depth wid parent x y width height
             border_width class visual value_mask p n)) = 32 + unat n
       \<and> unat (rd16 (emitted ch (x11_create_window ch mem depth wid parent x y width height
             border_width class visual value_mask p n)) 2) = ((32 + unat n) div 4) mod 65536
       \<and> drop 12 (emitted ch (x11_configure_window ch mem window value_mask p n))
           = mem_bytes mem p (unat n)
       \<and> length (emitted ch (x11_configure_window ch mem window value_mask p n)) = 12 + unat n
       \<and> unat (rd16 (emitted ch (x11_configure_window ch mem window value_mask p n)) 2)
           = ((12 + unat n) div 4) mod 65536
       \<and> ((32 + unat n) div 4 < 65536 \<longrightarrow>
            unat (rd16 (emitted ch (x11_create_gc ch mem cid drawable value_mask p n)) 2)
              = (16 + unat n) div 4
            \<and> unat (rd16 (emitted ch (x11_create_window ch mem depth wid parent x y width height
                 border_width class visual value_mask p n)) 2) = (32 + unat n) div 4
            \<and> unat (rd16 (emitted ch (x11_configure_window ch mem window value_mask p n)) 2)
              = (12 + unat n) div 4)"
proof -
  have gc: "unat (rd16 (emitted ch (x11_create_gc ch mem cid drawable value_mask p n)) 2)
           = ((16 + unat n) div 4) mod 65536"
    using length_field[of 16 n] by (simp add: emitted_create_gc[OF assms] create_gc_header)
  have cw: "unat (rd16 (emitted ch (x11_create_window ch mem depth wid parent x y width height
             border_width class visual value_mask p n)) 2) = ((32 + unat n) div 4) mod 65536"
    using length_field[of 32 n]
    by (simp add: emitted_create_window[OF assms] create_window_header_len)
  have cf: "unat (rd16 (emitted ch (x11_configure_window ch mem window value_mask p n)) 2)
           = ((12 + unat n) div 4) mod 65536"
    using length_field[of 12 n]
    by (simp add: emitted_configure_window[OF assms] configure_window_header)
  have small: "(16 + unat n) div 4 < 65536 \<and> (12 + unat n) div 4 < 65536"
    if "(32 + unat n) div 4 < 65536"
    using that by arith
  have bytes: "drop 16 (emitted ch (x11_create_gc ch mem cid drawable value_mask p n)) = mem_bytes mem p (unat n)
       \<and> length (emitted ch (x11_create_gc ch mem cid drawable value_mask p n)) = 16 + unat n
       \<and> drop 32 (emitted ch (x11_create_window ch mem depth wid parent x y width height
             border_width class visual value_mask p n)) = mem_bytes mem p (unat n)
       \<and> length (emitted ch (x11_create_window ch mem depth wid parent x y width height
             border_width class visual value_mask p n)) = 32 + unat n
       \<and> drop 12 (emitted ch (x11_configure_window ch mem window value_mask p n))
           = mem_bytes mem p (unat n)
       \<and> length (emitted ch (x11_configure_window ch mem window value_mask p n)) = 12 + unat n"
    by (simp add: emitted_create_gc[OF assms] create_gc_header
          emitted_create_window[OF assms] create_window_header_length
          emitted_configure_window[OF assms] configure_window_header)
  show ?thesis using gc cw cf small bytes by simp
qed

theorem value_list_requests_witness:
  "connected \<lparr>connected = True, sent = [], incoming = []\<rparr>
   \<and> (32 + unat (8 :: size_t)) div 4 < 65536
   \<and> drop 16 (emitted \<lparr>connected = True, sent = [], incoming = []\<rparr>
        (x11_create_gc \<lparr>connected = True, sent = [], incoming = []\<rparr>
           (mem_of_list 200 [1, 0, 0, 0, 2, 0, 0, 0]) 7 9 12 200 8))
       = [1, 0, 0, 0, 2, 0, 0, 0]
   \<and> unat (rd16 (emitted \<lparr>connected = True, sent = [], incoming = []\<rparr>
        (x11_create_gc \<lparr>connected = True, sent = [], incoming = []\<rparr>
           (mem_of_list 200 [1, 0, 0, 0, 2, 0, 0, 0]) 7 9 12 200 8)) 2) = 6
   \<and> unat (rd16 (emitted \<lparr>connected = True, sent = [], incoming = []\<rparr>
        (x11_create_window \<lparr>connected = True, sent = [], incoming = []\<rparr>
           (mem_of_list 200 [1, 0, 0, 0, 2, 0, 0, 0]) 0 7 9 0 0 640 480 0 1 33 12 200 8)) 2) = 10
   \<and> unat (rd16 (emitted \<lparr>connected = True, sent = [], incoming = []\<rparr>
        (x11_configure_window \<lparr>connected = True, sent = [], incoming = []\<rparr>
           (mem_of_list 200 [1, 0, 0, 0, 2, 0, 0, 0]) 7 12 200 8)) 2) = 5"
proof -
  have m: "mem_bytes (mem_of_list 200 [1, 0, 0, 0, 2, 0, 0, 0]) 200 8 = [1, 0, 0, 0, 2, 0, 0, 0]"
    by (simp add: mem_bytes_def mem_of_list_def)
  show ?thesis
    using value_list_requests [of "\<lparr>connected = True, sent = [], incoming = []\<rparr>"
        "mem_of_list 200 [1, 0, 0, 0, 2, 0, 0, 0]" 7 9 12 200 8 0 7 9 0 0 640 480 0 1 33 7]
    by (simp add: m)
qed

text \<open>
  Without the bound the length field differs from the quotient: a value list of 262144
  bytes gives 65540, of which the field keeps 4.
\<close>

theorem value_list_requests_counterexample:
  "unat (rd16 (emitted \<lparr>connected = True, sent = [], incoming = []\<rparr>
        (x11_create_gc \<lparr>connected = True, sent = [], incoming = []\<rparr>
           (mem_of_list 0 []) 7 9 12 0 262144)) 2) = 4
   \<and> (16 + unat (262144 :: size_t)) div 4 = 65540
   \<and> unat (rd16 (emitted \<lparr>connected = True, sent = [], incoming = []\<rparr>
        (x11_create_gc \<lparr>connected = True, sent = [], incoming = []\<rparr>
           (mem_of_list 0 []) 7 9 12 0 262144)) 2) \<noteq> (16 + unat (262144 :: size_t)) div 4"
proof -
  have c: "connected \<lparr>connected = True, sent = [], incoming = []\<rparr>" by simp
  have "unat (rd16 (emitted \<lparr>connected = True, sent = [], incoming = []\<rparr>
        (x11_create_gc \<lparr>connected = True, sent = [], incoming = []\<rparr>
           (mem_of_list 0 []) 7 9 12 0 262144)) 2) = 4"
    using length_field[of 16 262144] by (simp add: emitted_create_gc[OF c] create_gc_header)
  then show ?thesis by simp
qed

lemma words_of_bytes_le32: "words_of_bytes (concat (map le32 ws)) = ws"
  by (induction ws) (simp_all add: le32_def rd32_def byte_at_def rd32_le32)

lemma parse_create_window_header_request:
  "parse_create_window_header
     (x11_create_window_request_t op depth len wid parent x y width height border_width class
        visual value_mask @ rest) =
   \<lparr>cw_major_opcode = op, cw_depth = depth, cw_length = len, cw_wid = wid, cw_parent = parent,
    cw_x = x, cw_y = y, cw_width = width, cw_height = height, cw_border_width = border_width,
    cw_class = class, cw_visual = visual, cw_value_mask = value_mask\<rparr>"
  by (simp add: parse_create_window_header_def x11_create_window_request_t_def le16_def le32_def
        rd16_def rd32_def byte_at_def rd16_le16 rd32_le32)

text \<open>
  C9. A create-window request written for a value list of 32-bit words that lies in memory
  with the declared size four times its length, parsed back against the header layout,
  gives the opcode, the depth, the window and parent ids, the geometry, the class, the
  visual and the value mask that were passed in, and the same value list.
\<close>

theorem create_window_round_trip:
  assumes "connected ch" and "holds_words mem value_list ws"
    and "unat value_list_size = 4 * length ws"
  shows "parse_create_window
           (emitted ch (x11_create_window ch mem depth wid parent x y width height border_width
              class visual value_mask value_list value_list_size)) =
         (\<lparr>cw_major_opcode = X11_CREATE_WINDOW, cw_depth = depth,
           cw_length = ucast ((32 + value_list_size) div 4), cw_wid = wid, cw_parent = parent,
           cw_x = x, cw_y = y, cw_width = width, cw_height = height,
           cw_border_width = border_width, cw_class = class, cw_visual = visual,
           cw_value_mask = value_mask\<rparr>, ws)"
  using assms(2,3)
  by (simp add: parse_create_window_def emitted_create_window[OF assms(1)]
        parse_create_window_header_request create_window_header_length holds_words_def
        words_of_bytes_le32)

theorem create_window_round_trip_witness:
  "connected \<lparr>connected = True, sent = [], incoming = []\<rparr>
   \<and> holds_words (mem_of_list 300 [0xFF, 0xFF, 0xFF, 0, 0, 0x80, 0, 0]) 300 [0xFFFFFF, 0x8000]
   \<and> unat (8 :: size_t) = 4 * length [0xFFFFFF, 0x8000 :: u32]
   \<and> parse_create_window
         (emitted \<lparr>connected = True, sent = [], incoming = []\<rparr>
            (x11_create_window \<lparr>connected = True, sent = [], incoming = []\<rparr>
               (mem_of_list 300 [0xFF, 0xFF, 0xFF, 0, 0, 0x80, 0, 0])
               0 0x400002 0x123 0 0 640 480 0 1 0x21 0x802 300 8))
       = (\<lparr>cw_major_opcode = 1, cw_depth = 0, cw_length = 10, cw_wid = 0x400002,
           cw_parent = 0x123, cw_x = 0, cw_y = 0, cw_width = 640, cw_height = 480,
           cw_border_width = 0, cw_class = 1, cw_visual = 0x21, cw_value_mask = 0x802\<rparr>,
          [0xFFFFFF, 0x8000])"
proof -
  have h: "holds_words (mem_of_list 300 [0xFF, 0xFF, 0xFF, 0, 0, 0x80, 0, 0]) 300 [0xFFFFFF, 0x8000]"
    by (simp add: holds_words_def mem_bytes_def mem_of_list_def le32_def)
  show ?thesis
    using create_window_round_trip [of "\<lparr>connected = True, sent = [], incoming = []\<rparr>"
        "mem_of_list 300 [0xFF, 0xFF, 0xFF, 0, 0, 0x80, 0, 0]" 300 "[0xFFFFFF, 0x8000]" 8
        0 "0x400002" "0x123" 0 0 640 480 0 1 "0x21" "0x802"] h
    by (simp add: X11_CREATE_WINDOW_def)
qed

text \<open>
  C10. The string-length member of an image-text-8 request, the second byte of the request,
  is the string size truncated to one byte: as a number, the size modulo 256.
\<close>

theorem image_text_8_string_len:
  assumes "connected ch"
  shows "byte_at (emitted ch (x11_image_text_8 ch mem drawable gc x y string string_size)) 1
           = ucast string_size
       \<and> unat (byte_at (emitted ch (x11_image_text_8 ch mem drawable gc x y string string_size)) 1)
           = unat string_size mod 256"
proof -
  define A where "A = (string_size + 3) AND NOT 3"
  have "unat (ucast string_size :: u8) = unat string_size mod 256"
    by (simp add: unsigned_ucast_eq take_bit_eq_mod)
  then show ?thesis
    by (simp add: emitted_image_text_8[OF assms A_def] image_text_8_header)
qed

theorem image_text_8_string_len_witness:
  "connected \<lparr>connected = True, sent = [], incoming = []\<rparr>
   \<and> byte_at (emitted \<lparr>connected = True, sent = [], incoming = []\<rparr>
        (x11_image_text_8 \<lparr>connected = True, sent = [], incoming = []\<rparr>
           (mem_of_list 0 []) 1 2 16 16 0 300)) 1 = 44"
  using image_text_8_string_len [of "\<lparr>connected = True, sent = [], incoming = []\<rparr>"
      "mem_of_list 0 []" 1 2 16 16 0 300]
  by simp

section \<open>Events\<close>

text \<open>
  C5. \<open>x11_wait_for_event\<close> reads one byte. It returns false exactly when that read
  returns 0, which is at the end of the stream, and then consumes nothing. When a byte
  \<open>tag\<close> is read, exactly that byte is taken as the tag and bit 7 is cleared; if the
  result is 12 (expose) the next 13 bytes are read and dropped and the call returns true;
  otherwise it returns true and the stream stays right behind the tag. A failed read
  (result -1) also returns true, with the old event byte masked.
\<close>

theorem wait_for_event_cases:
  "(\<not> fst (x11_wait_for_event ch event) \<longleftrightarrow> fst (sys_read [event] 1 ch) = 0)
   \<and> (fst (sys_read [event] 1 ch) = 0 \<longleftrightarrow> connected ch \<and> incoming ch = [])
   \<and> (connected ch \<and> incoming ch = [] \<longrightarrow> x11_wait_for_event ch event = (False, event, ch))
   \<and> (\<not> connected ch \<longrightarrow> x11_wait_for_event ch event = (True, event AND 0x7F, ch))
   \<and> (connected ch \<and> incoming ch = tag # rest \<longrightarrow>
        incoming (snd (snd (sys_read [event] 1 ch))) = rest
        \<and> (tag AND 0x7F = X11_EXPOSE \<longrightarrow>
             x11_wait_for_event ch event = (True, X11_EXPOSE, ch\<lparr>incoming := drop 13 rest\<rparr>))
        \<and> (tag AND 0x7F \<noteq> X11_EXPOSE \<longrightarrow>
             x11_wait_for_event ch event = (True, tag AND 0x7F, ch\<lparr>incoming := rest\<rparr>)))"
proof -
  have e: "(- 129 :: u8) = 127" by simp
  have m: "t AND - 129 = t AND 127" for t :: u8 by (subst e) (rule refl)
  show ?thesis
    by (cases "incoming ch")
      (auto simp: x11_wait_for_event_def sys_read_def read_unused_def Let_def byte_at_def m)
qed

theorem wait_for_event_cases_witness:
  "connected \<lparr>connected = True, sent = [], incoming = [0x8C, 1, 2, 3, 4, 5, 6, 7, 8, 9, 10, 11, 12, 13, 14, 15]\<rparr>
   \<and> (0x8C :: u8) AND 0x7F = X11_EXPOSE
   \<and> x11_wait_for_event
         \<lparr>connected = True, sent = [], incoming = [0x8C, 1, 2, 3, 4, 5, 6, 7, 8, 9, 10, 11, 12, 13, 14, 15]\<rparr> 0
       = (True, X11_EXPOSE, \<lparr>connected = True, sent = [], incoming = [14, 15]\<rparr>)
   \<and> (2 :: u8) AND 0x7F \<noteq> X11_EXPOSE
   \<and> x11_wait_for_event \<lparr>connected = True, sent = [], incoming = [2, 7, 7]\<rparr> 0
       = (True, 2, \<lparr>connected = True, sent = [], incoming = [7, 7]\<rparr>)
   \<and> x11_wait_for_event \<lparr>connected = True, sent = [], incoming = []\<rparr> 5
       = (False, 5, \<lparr>connected = True, sent = [], incoming = []\<rparr>)
   \<and> \<not> connected \<lparr>connected = False, sent = [], incoming = []\<rparr>
   \<and> x11_wait_for_event \<lparr>connected = False, sent = [], incoming = []\<rparr> 0x8C
       = (True, 12, \<lparr>connected = False, sent = [], incoming = []\<rparr>)"
  using wait_for_event_cases [of
      "\<lparr>connected = True, sent = [], incoming = [0x8C, 1, 2, 3, 4, 5, 6, 7, 8, 9, 10, 11, 12, 13, 14, 15]\<rparr>"
      0 "0x8C" "[1, 2, 3, 4, 5, 6, 7, 8, 9, 10, 11, 12, 13, 14, 15]"]
    wait_for_event_cases [of "\<lparr>connected = True, sent = [], incoming = [2, 7, 7]\<rparr>" 0 2 "[7, 7]"]
    wait_for_event_cases [of "\<lparr>connected = True, sent = [], incoming = []\<rparr>" 5]
    wait_for_event_cases [of "\<lparr>connected = False, sent = [], incoming = []\<rparr>" "0x8C"]
  by (simp add: X11_EXPOSE_def)

end
